theory Spec2Isabelle
  imports Main
begin

section \<open>Python values used by the connector\<close>

text \<open>
  A \<open>datetime\<close> is an absolute instant, counted in microseconds (the resolution of
  Python's \<open>datetime\<close>); a \<open>timedelta\<close> is a number of microseconds. Time zones are
  not modelled: every instant is taken in UTC, as \<open>AccessToken.is_valid\<close> arranges
  for naive values.
\<close>

type_synonym datetime = int
type_synonym timedelta = int

definition seconds :: "int \<Rightarrow> timedelta" where
  "seconds n = n * 1000000"

text \<open>Truthiness of an optional string: \<open>None\<close> and the empty string are falsy.\<close>

definition truthy :: "string option \<Rightarrow> bool" where
  "truthy s = (s \<noteq> None \<and> s \<noteq> Some [])"

text \<open>\<open>a or b\<close> on optional strings gives \<open>a\<close> when it is truthy, else \<open>b\<close>.\<close>

definition py_or :: "string option \<Rightarrow> string option \<Rightarrow> string option" where
  "py_or a b = (if truthy a then a else b)"

text \<open>\<open>int(x)\<close> of a quotient truncates toward zero.\<close>

definition trunc_div :: "int \<Rightarrow> int \<Rightarrow> int" where
  "trunc_div a b = (if 0 \<le> a then a div b else - ((- a) div b))"

fun join :: "string \<Rightarrow> string list \<Rightarrow> string" where
  "join sep [] = []"
| "join sep [x] = x"
| "join sep (x # y # ys) = x @ sep @ join sep (y # ys)"

text \<open>A JSON value, as \<open>response.json()\<close> returns it.\<close>

datatype json =
    JNull
  | JBool bool
  | JNum int
  | JStr string
  | JArr "json list"
  | JObj "(string \<times> json) list"

text \<open>\<open>dict.update\<close> on a dictionary kept in insertion order.\<close>

fun dict_set :: "'k \<Rightarrow> 'v \<Rightarrow> ('k \<times> 'v) list \<Rightarrow> ('k \<times> 'v) list" where
  "dict_set k v [] = [(k, v)]"
| "dict_set k v ((k', v') # kvs) =
     (if k' = k then (k, v) # kvs else (k', v') # dict_set k v kvs)"

definition dict_update :: "('k \<times> 'v) list \<Rightarrow> ('k \<times> 'v) list \<Rightarrow> ('k \<times> 'v) list" where
  "dict_update d e = foldl (\<lambda>acc (k, v). dict_set k v acc) d e"

section \<open>Errors\<close>

text \<open>
  The body of the token endpoint's answer, with the fields \<open>get_token\<close> reads, typed as
  the OAuth contract gives them (\<open>None\<close>: the key is absent).
\<close>

record token_response =
  tr_status_code :: int
  tr_error_description :: "string option"
  tr_error :: "string option"
  tr_access_token :: "string option"
  tr_expires_in :: "int option"
  tr_refresh_token :: "string option"
  tr_scope :: "string option"

datatype payload =
    Text string
  | Json json
  | TokenJson token_response

text \<open>
  \<open>DriveRetriableError\<close> is a subclass of \<open>DriveAPIError\<close>; both carry a message, a
  status code and a payload. \<open>RetryError\<close> is tenacity's exception: it wraps the
  exception of the last attempt and is no \<open>DriveAPIError\<close>.
\<close>

datatype error =
    DriveAPIError string int "payload option"
  | DriveRetriableError string int "payload option"
  | RetryError error
  | TransportError
  | JSONDecodeError
  | KeyError string
  | ValueError string
  | TypeError string
  | PermissionError string
  | IntegrityError
  | OtherError string

text \<open>\<open>except DriveAPIError\<close> catches the class and its subclass.\<close>

fun is_DriveAPIError :: "error \<Rightarrow> bool" where
  "is_DriveAPIError (DriveAPIError _ _ _) = True"
| "is_DriveAPIError (DriveRetriableError _ _ _) = True"
| "is_DriveAPIError _ = False"

fun status_code_of :: "error \<Rightarrow> int option" where
  "status_code_of (DriveAPIError _ sc _) = Some sc"
| "status_code_of (DriveRetriableError _ sc _) = Some sc"
| "status_code_of _ = None"

fun class_name :: "error \<Rightarrow> string" where
  "class_name (DriveAPIError _ _ _) = ''DriveAPIError''"
| "class_name (DriveRetriableError _ _ _) = ''DriveRetriableError''"
| "class_name (RetryError _) = ''RetryError''"
| "class_name TransportError = ''TransportError''"
| "class_name JSONDecodeError = ''JSONDecodeError''"
| "class_name (KeyError _) = ''KeyError''"
| "class_name (ValueError _) = ''ValueError''"
| "class_name (TypeError _) = ''TypeError''"
| "class_name (PermissionError _) = ''PermissionError''"
| "class_name IntegrityError = ''IntegrityError''"
| "class_name (OtherError _) = ''Exception''"

section \<open>Settings\<close>

record Settings =
  googledrive_client_id :: string
  googledrive_client_secret :: string
  googledrive_refresh_token :: "string option"
  googledrive_service_account_key_path :: "string option"
  googledrive_token_url :: string
  googledrive_scopes :: "string list"
  googledrive_default_account_id :: string
  connector_webhook_url :: "string option"

section \<open>Credential store (\<open>services/token_store.py\<close>)\<close>

text \<open>
  One row of \<open>token_credentials\<close>. The table has a unique constraint on the account
  identifier, so it is a map from account identifiers to rows.
\<close>

record TokenCredential =
  account_id :: string
  access_token :: "string option"
  refresh_token :: "string option"
  expires_at :: "datetime option"
  scopes :: "string option"
  is_service_account :: bool

type_synonym credentials = "string \<rightharpoonup> TokenCredential"

definition get_credentials :: "string \<Rightarrow> credentials \<Rightarrow> TokenCredential option" where
  "get_credentials acct tbl = tbl acct"

text \<open>
  \<open>upsert_credentials\<close>: \<open>now\<close> is the value of \<open>datetime.now(timezone.utc)\<close> read by
  the call. An existing row keeps its refresh token and its scopes unless the argument is
  truthy.
\<close>

definition upsert_credentials ::
  "datetime \<Rightarrow> string \<Rightarrow> string \<Rightarrow> string option \<Rightarrow> int \<Rightarrow> string option \<Rightarrow> bool
   \<Rightarrow> credentials \<Rightarrow> TokenCredential \<times> credentials" where
  "upsert_credentials now acct new_access new_refresh expires_in new_scopes is_sa tbl =
     (let new_expires_at = now + seconds expires_in;
          row =
            (case get_credentials acct tbl of
               Some r \<Rightarrow>
                 r\<lparr>access_token := Some new_access,
                   refresh_token := (if truthy new_refresh then new_refresh else refresh_token r),
                   expires_at := Some new_expires_at,
                   scopes := (if truthy new_scopes then new_scopes else scopes r),
                   is_service_account := is_sa\<rparr>
             | None \<Rightarrow>
                 \<lparr>account_id = acct,
                  access_token = Some new_access,
                  refresh_token = new_refresh,
                  expires_at = Some new_expires_at,
                  scopes = new_scopes,
                  is_service_account = is_sa\<rparr>)
      in (row, tbl(acct \<mapsto> row)))"

section \<open>Token provider (\<open>clients/googledrive.py\<close>)\<close>

record AccessToken =
  token :: string
  token_expires_at :: "datetime option"

definition is_valid :: "datetime \<Rightarrow> AccessToken \<Rightarrow> bool" where
  "is_valid now t =
     (case token_expires_at t of
        None \<Rightarrow> True
      | Some e \<Rightarrow> now < e - seconds 60)"

text \<open>The form posted to the token endpoint.\<close>

record token_request =
  tq_url :: string
  tq_client_id :: string
  tq_client_secret :: string
  tq_grant_type :: string
  tq_refresh_token :: string
  tq_scope :: "string option"

datatype token_outcome =
    TokenResponse token_response
  | TokenTransportError

text \<open>
  The identity provider, as the provider sees it: the token endpoint answers a request
  given the requests posted before it, and the \<open>n\<close>-th refresh of the service-account
  credentials gives a token and an expiry, or raises.
\<close>

record identity_provider =
  token_endpoint :: "token_request list \<Rightarrow> token_request \<Rightarrow> token_outcome"
  service_account_refresh :: "nat \<Rightarrow> error + (string \<times> datetime option)"

text \<open>
  The provider object: its settings, whether a repository was given, the default account,
  the in-memory cache \<open>_tokens\<close>, and what it reaches: the credentials table behind the
  repository, the requests posted to the token endpoint so far and the number of
  service-account refreshes so far.
\<close>

record OAuthTokenProvider =
  p_settings :: Settings
  p_has_repository :: bool
  p_default_account_id :: string
  p_tokens :: "string \<rightharpoonup> AccessToken"
  p_store :: credentials
  p_posted :: "token_request list"
  p_refreshes :: nat

definition resolve_account :: "string option \<Rightarrow> OAuthTokenProvider \<Rightarrow> string" where
  "resolve_account account P =
     (if truthy account then the account else p_default_account_id P)"

definition invalidate :: "string option \<Rightarrow> OAuthTokenProvider \<Rightarrow> OAuthTokenProvider" where
  "invalidate account P =
     (let acct = resolve_account account P
      in P\<lparr>p_tokens := (p_tokens P)(acct := None)\<rparr>)"

text \<open>The service-account branch of \<open>get_token\<close>.\<close>

definition get_token_service_account ::
  "identity_provider \<Rightarrow> datetime \<Rightarrow> string \<Rightarrow> OAuthTokenProvider
   \<Rightarrow> (error + string) \<times> OAuthTokenProvider" where
  "get_token_service_account idp now acct P =
     (let P0 = P\<lparr>p_refreshes := Suc (p_refreshes P)\<rparr>
      in case service_account_refresh idp (p_refreshes P) of
           Inl e \<Rightarrow> (Inl e, P0)
         | Inr (tok, expiry) \<Rightarrow>
             (let t = \<lparr>token = tok, token_expires_at = expiry\<rparr>;
                  P1 = P0\<lparr>p_tokens := (p_tokens P0)(acct \<mapsto> t)\<rparr>
              in if p_has_repository P1 \<and> expiry \<noteq> None then
                   (let expires_in = trunc_div (the expiry - now) 1000000;
                        (row, store') =
                          upsert_credentials now acct tok None (max expires_in 0)
                            (Some (join '' '' (googledrive_scopes (p_settings P1)))) True
                            (p_store P1)
                    in (Inr tok, P1\<lparr>p_store := store'\<rparr>))
                 else (Inr tok, P1)))"

text \<open>The refresh-token branch of \<open>get_token\<close>.\<close>

definition stored_access_token :: "TokenCredential option \<Rightarrow> AccessToken option" where
  "stored_access_token row =
     (case row of
        None \<Rightarrow> None
      | Some r \<Rightarrow>
          if truthy (access_token r) \<and> expires_at r \<noteq> None
          then Some \<lparr>token = the (access_token r), token_expires_at = expires_at r\<rparr>
          else None)"

definition get_token_refresh ::
  "identity_provider \<Rightarrow> datetime \<Rightarrow> string \<Rightarrow> OAuthTokenProvider
   \<Rightarrow> (error + string) \<times> OAuthTokenProvider" where
  "get_token_refresh idp now acct P =
     (let S = p_settings P;
          row = (if p_has_repository P then get_credentials acct (p_store P) else None);
          stored = stored_access_token row
      in if stored \<noteq> None \<and> is_valid now (the stored) then
           (Inr (token (the stored)), P\<lparr>p_tokens := (p_tokens P)(acct \<mapsto> the stored)\<rparr>)
         else
           (let from_record = (row \<noteq> None \<and> truthy (refresh_token (the row)));
                refresh0 = (if from_record then refresh_token (the row) else None);
                scopes0 = (if from_record then scopes (the row) else None);
                refresh1 = (if truthy refresh0 then refresh0 else googledrive_refresh_token S)
            in if \<not> truthy refresh1 then
                 (Inl (DriveAPIError ''No refresh token configured for Google Drive connector''
                         401 None), P)
               else
                 (let req = \<lparr>tq_url = googledrive_token_url S,
                             tq_client_id = googledrive_client_id S,
                             tq_client_secret = googledrive_client_secret S,
                             tq_grant_type = ''refresh_token'',
                             tq_refresh_token = the refresh1,
                             tq_scope = (if truthy scopes0 then scopes0 else None)\<rparr>;
                      P0 = P\<lparr>p_posted := p_posted P @ [req]\<rparr>
                  in case token_endpoint idp (p_posted P) req of
                       TokenTransportError \<Rightarrow> (Inl TransportError, P0)
                     | TokenResponse response \<Rightarrow>
                         if tr_status_code response \<ge> 400 then
                           (let error_desc =
                                  (case tr_error_description response of
                                     Some d \<Rightarrow> d
                                   | None \<Rightarrow>
                                       (case tr_error response of
                                          Some d \<Rightarrow> d
                                        | None \<Rightarrow> ''Unknown error''))
                            in (Inl (DriveAPIError
                                       (''Failed to refresh Google Drive access token: ''
                                          @ error_desc)
                                       (tr_status_code response)
                                       (Some (TokenJson response))), P0))
                         else
                           (let expires_in =
                                  (case tr_expires_in response of
                                     Some n \<Rightarrow> n
                                   | None \<Rightarrow> 3600)
                            in case tr_access_token response of
                                 None \<Rightarrow> (Inl (KeyError ''access_token''), P0)
                               | Some new_access \<Rightarrow>
                                   (let refresh_from_response =
                                          py_or (tr_refresh_token response) refresh1;
                                        scopes_from_response =
                                          py_or (tr_scope response) scopes0;
                                        t = \<lparr>token = new_access,
                                             token_expires_at =
                                               Some (now + seconds expires_in)\<rparr>;
                                        P1 = P0\<lparr>p_tokens := (p_tokens P0)(acct \<mapsto> t)\<rparr>
                                    in if p_has_repository P1 then
                                         (let (row', store') =
                                                upsert_credentials now acct new_access
                                                  refresh_from_response expires_in
                                                  scopes_from_response False (p_store P1)
                                          in (Inr new_access, P1\<lparr>p_store := store'\<rparr>))
                                       else (Inr new_access, P1))))))"

text \<open>
  \<open>get_token\<close>. \<open>now\<close> is the instant of the call: every \<open>datetime.now\<close> the call
  reads is taken at it. The lock is not modelled: calls are sequential.
\<close>

definition get_token ::
  "identity_provider \<Rightarrow> datetime \<Rightarrow> string option \<Rightarrow> OAuthTokenProvider
   \<Rightarrow> (error + string) \<times> OAuthTokenProvider" where
  "get_token idp now account P =
     (let acct = resolve_account account P;
          cached = p_tokens P acct
      in if cached \<noteq> None \<and> is_valid now (the cached) then (Inr (token (the cached)), P)
         else if truthy (googledrive_service_account_key_path (p_settings P)) then
           get_token_service_account idp now acct P
         else get_token_refresh idp now acct P)"

section \<open>Authenticated request pipeline (\<open>GoogleDriveClient._request\<close>)\<close>

record http_request =
  rq_method :: string
  rq_url :: string
  rq_params :: "(string \<times> string) list"
  rq_json :: "json option"
  rq_data :: "string option"
  rq_files :: "string option"
  rq_headers :: "(string \<times> string) list"
  rq_stream :: bool

text \<open>
  A response: its status, its text, and what \<open>response.json()\<close> gives (\<open>None\<close> when
  the body is no JSON and the call raises).
\<close>

record http_response =
  status_code :: int
  response_text :: string
  json_body :: "json option"

datatype http_outcome =
    Response http_response
  | TransportFailure

text \<open>The Drive API answers a request given the requests sent before it.\<close>

type_synonym drive_api = "http_request list \<Rightarrow> http_request \<Rightarrow> http_outcome"

text \<open>One record passed to \<open>observe_drive_request\<close> (label and duration left out).\<close>

record observation =
  ob_method :: string
  ob_url :: string
  ob_status_code :: int
  ob_error_type :: "string option"

record GoogleDriveClient =
  c_token_provider :: OAuthTokenProvider
  c_account_id :: string
  c_sent :: "http_request list"
  c_observed :: "observation list"

text \<open>The local variables of \<open>_request\<close> that the attempts assign.\<close>

record request_locals =
  l_status_code :: int
  l_error_type :: "string option"

text \<open>
  The body of \<open>with attempt:\<close>: send the request (with the headers built before the
  loop), then classify the response.
\<close>

definition attempt ::
  "drive_api \<Rightarrow> http_request \<Rightarrow> GoogleDriveClient \<times> request_locals
   \<Rightarrow> (error + http_response) \<times> (GoogleDriveClient \<times> request_locals)" where
  "attempt api req = (\<lambda>(C, L).
     (let C1 = C\<lparr>c_sent := c_sent C @ [req]\<rparr>
      in case api (c_sent C) req of
           TransportFailure \<Rightarrow> (Inl TransportError, (C1, L))
         | Response response \<Rightarrow>
             (let L1 = L\<lparr>l_status_code := status_code response\<rparr>
              in if status_code response = 401 then
                   (Inl (DriveRetriableError ''Unauthorized request'' 401
                           (Some (Text (response_text response)))),
                    (C1\<lparr>c_token_provider :=
                           invalidate (Some (c_account_id C1)) (c_token_provider C1)\<rparr>,
                     L1\<lparr>l_error_type := Some ''unauthorized''\<rparr>))
                 else if status_code response = 429 \<or> status_code response \<ge> 500 then
                   (Inl (DriveRetriableError ''Drive API throttled or server error''
                           (status_code response) (Some (Text (response_text response)))),
                    (C1, L1\<lparr>l_error_type := Some ''retryable''\<rparr>))
                 else if status_code response \<ge> 400 then
                   (case json_body response of
                      None \<Rightarrow> (Inl JSONDecodeError, (C1, L1\<lparr>l_error_type := Some ''client_error''\<rparr>))
                    | Some j \<Rightarrow>
                        (Inl (DriveAPIError ''Drive API returned error''
                                (status_code response) (Some (Json j))),
                         (C1, L1\<lparr>l_error_type := Some ''client_error''\<rparr>)))
                 else (Inr response, (C1, L1)))))"

text \<open>
  \<open>retry_if_exception_type((httpx.TransportError, DriveRetriableError))\<close>.
\<close>

fun retry_if :: "error \<Rightarrow> bool" where
  "retry_if TransportError = True"
| "retry_if (DriveRetriableError _ _ _) = True"
| "retry_if _ = False"

text \<open>
  The loop \<open>async for attempt in retry: with attempt: ...\<close> of tenacity's
  \<open>AsyncRetrying\<close> with \<open>stop_after_attempt(max_attempt_number)\<close> and the default
  \<open>reraise=False\<close>: a result returned by the body leaves the loop; an exception that
  \<open>retry\<close> does not select is raised as it is; an exception that it selects is tried
  again after the wait, unless \<open>attempt_number >= max_attempt_number\<close>, when
  \<open>RetryError\<close> is raised from it. The waits are not modelled.
\<close>

function async_retrying ::
  "nat \<Rightarrow> nat \<Rightarrow> ('s \<Rightarrow> (error + 'a) \<times> 's) \<Rightarrow> 's \<Rightarrow> (error + 'a) \<times> 's" where
  "async_retrying max_attempt_number attempt_number body s =
     (let (outcome, s') = body s
      in case outcome of
           Inr r \<Rightarrow> (Inr r, s')
         | Inl e \<Rightarrow>
             if \<not> retry_if e then (Inl e, s')
             else if attempt_number \<ge> max_attempt_number then (Inl (RetryError e), s')
             else async_retrying max_attempt_number (Suc attempt_number) body s')"
  by pat_completeness auto
termination
  by (relation "measure (\<lambda>(m, a, b, s). m - a)") auto

declare async_retrying.simps [simp del]

text \<open>
  \<open>_request\<close>. The token is read once, before the loop, and the headers are built
  once. The handler \<open>except DriveAPIError\<close> sets the status and the error type that
  \<open>finally\<close> observes, and raises the exception again. The statement after the
  \<open>try\<close> is not reached: the loop returns or raises.
\<close>

definition request ::
  "identity_provider \<Rightarrow> drive_api \<Rightarrow> datetime \<Rightarrow> string \<Rightarrow> string \<Rightarrow> (string \<times> string) list
   \<Rightarrow> json option \<Rightarrow> string option \<Rightarrow> string option \<Rightarrow> (string \<times> string) list \<Rightarrow> bool
   \<Rightarrow> GoogleDriveClient \<Rightarrow> (error + http_response) \<times> GoogleDriveClient" where
  "request idp api now method url params js data files headers stream C =
     (case get_token idp now (Some (c_account_id C)) (c_token_provider C) of
        (Inl e, P') \<Rightarrow> (Inl e, C\<lparr>c_token_provider := P'\<rparr>)
      | (Inr tok, P') \<Rightarrow>
          (let req_headers =
                 dict_update [(''Authorization'', ''Bearer '' @ tok),
                              (''Accept'', ''application/json'')] headers;
               req = \<lparr>rq_method = method, rq_url = url, rq_params = params, rq_json = js,
                      rq_data = data, rq_files = files, rq_headers = req_headers,
                      rq_stream = stream\<rparr>;
               L0 = \<lparr>l_status_code = 500, l_error_type = None\<rparr>;
               (outcome, (C', L)) =
                 async_retrying 5 1 (attempt api req) (C\<lparr>c_token_provider := P'\<rparr>, L0);
               L' = (case outcome of
                       Inr r \<Rightarrow> L
                     | Inl exc \<Rightarrow>
                         if is_DriveAPIError exc then
                           L\<lparr>l_status_code := the (status_code_of exc),
                             l_error_type := (if truthy (l_error_type L) then l_error_type L
                                              else Some (class_name exc))\<rparr>
                         else L)
           in (outcome,
               C'\<lparr>c_observed := c_observed C' @
                    [\<lparr>ob_method = method, ob_url = url,
                      ob_status_code = l_status_code L',
                      ob_error_type = l_error_type L'\<rparr>]\<rparr>)))"

section \<open>Sync checkpoints (\<open>services/sync_state.py\<close>)\<close>

text \<open>
  One row of \<open>sync_checkpoints\<close>; the table has a unique constraint on account and
  resource, so it is a map from the pair to the row.
\<close>

record SyncCheckpoint =
  cp_account_id :: string
  cp_resource :: string
  cursor :: "string option"
  last_synced_at :: "datetime option"

type_synonym checkpoints = "(string \<times> string) \<rightharpoonup> SyncCheckpoint"

definition get_checkpoint :: "string \<Rightarrow> string \<Rightarrow> checkpoints \<Rightarrow> SyncCheckpoint option" where
  "get_checkpoint acct resource tbl = tbl (acct, resource)"

definition upsert_checkpoint ::
  "string \<Rightarrow> string \<Rightarrow> string option \<Rightarrow> datetime option \<Rightarrow> checkpoints
   \<Rightarrow> SyncCheckpoint \<times> checkpoints" where
  "upsert_checkpoint acct resource new_cursor synced_at tbl =
     (let checkpoint =
            (case get_checkpoint acct resource tbl of
               Some c \<Rightarrow> c\<lparr>cursor := new_cursor, last_synced_at := synced_at\<rparr>
             | None \<Rightarrow>
                 \<lparr>cp_account_id = acct, cp_resource = resource,
                  cursor = new_cursor, last_synced_at = synced_at\<rparr>)
      in (checkpoint, tbl((acct, resource) \<mapsto> checkpoint)))"

section \<open>The client as the services use it\<close>

text \<open>
  A change record of the feed is a flat JSON object. The payload of a page of changes holds
  the three keys \<open>sync_changes\<close> reads, typed as the Drive API gives them (\<open>None\<close>: the
  key is absent).
\<close>

type_synonym change = "(string \<times> string) list"

record changes_payload =
  pl_changes :: "change list option"
  pl_newStartPageToken :: "string option"
  pl_nextPageToken :: "string option"

record watch_body =
  wb_id :: string
  wb_type :: string
  wb_address :: string
  wb_token :: string
  wb_ttl :: int

record watch_response =
  wr_resourceId :: "string option"
  wr_resourceUri :: "string option"
  wr_expiration :: "int option"

text \<open>
  The services receive their client as an object and call four of its methods. The client
  is a record of these methods, each a function on the client's own state \<open>'c\<close> (the
  requests it has sent, the tokens it holds, the server behind it), so that a call may fail
  and may change that state, and cannot touch the tables of the service.
\<close>

record 'c drive_client =
  get_start_page_token :: "'c \<Rightarrow> (error + string) \<times> 'c"
  list_changes :: "string \<Rightarrow> int \<Rightarrow> 'c \<Rightarrow> (error + changes_payload) \<times> 'c"
  start_changes_watch :: "string \<Rightarrow> watch_body \<Rightarrow> 'c \<Rightarrow> (error + watch_response) \<times> 'c"
  stop_channel :: "string \<Rightarrow> string option \<Rightarrow> 'c \<Rightarrow> (error + unit) \<times> 'c"

section \<open>Change sync engine (\<open>DriveFileService.sync_changes\<close>)\<close>

record sync_result =
  sr_changes :: "change list"
  sr_cursor :: string
  sr_initialised :: bool
  sr_has_more :: bool

text \<open>
  \<open>sync_changes\<close> for the service bound to account \<open>acct\<close>. The state is the
  checkpoint table and the client's state; \<open>now\<close> is the value of
  \<open>datetime.now(timezone.utc)\<close> read when the checkpoint is written.
\<close>

definition sync_changes ::
  "'c drive_client \<Rightarrow> string \<Rightarrow> datetime \<Rightarrow> string \<Rightarrow> int \<Rightarrow> checkpoints \<times> 'c
   \<Rightarrow> (error + sync_result) \<times> (checkpoints \<times> 'c)" where
  "sync_changes client acct now resource page_size = (\<lambda>(tbl, c).
     (let checkpoint = get_checkpoint acct resource tbl
      in if checkpoint = None \<or> \<not> truthy (cursor (the checkpoint)) then
           (case get_start_page_token client c of
              (Inl e, c') \<Rightarrow> (Inl e, (tbl, c'))
            | (Inr start_token, c') \<Rightarrow>
                (let (cp, tbl') = upsert_checkpoint acct resource (Some start_token) (Some now) tbl
                 in (Inr \<lparr>sr_changes = [], sr_cursor = start_token,
                          sr_initialised = True, sr_has_more = False\<rparr>, (tbl', c'))))
         else
           (case list_changes client (the (cursor (the checkpoint))) page_size c of
              (Inl e, c') \<Rightarrow> (Inl e, (tbl, c'))
            | (Inr pl, c') \<Rightarrow>
                (let new_cursor =
                       py_or (pl_newStartPageToken pl)
                         (py_or (pl_nextPageToken pl) (cursor (the checkpoint)));
                     (cp, tbl') = upsert_checkpoint acct resource new_cursor (Some now) tbl
                 in (Inr \<lparr>sr_changes = (case pl_changes pl of Some cs \<Rightarrow> cs | None \<Rightarrow> []),
                          sr_cursor = the new_cursor,
                          sr_initialised = False,
                          sr_has_more = truthy (pl_nextPageToken pl)\<rparr>, (tbl', c'))))))"

section \<open>Watch channel manager (\<open>services/watch.py\<close>)\<close>

text \<open>
  The expiration of a channel is a Python \<open>datetime\<close> that is aware (it has a
  \<open>tzinfo\<close>) or naive; either way it is kept with its instant, a naive one read as UTC.
  The column is \<open>DateTime(timezone=True)\<close>. SQLite, the database of the default
  \<open>connector_database_url\<close> and of the tests, keeps no time zone, and a value read
  from it is naive; PostgreSQL gives the value back aware. \<open>session.refresh(record)\<close>
  reads the row back, so an aware value written at the instant \<open>t\<close> is afterwards
  \<open>refreshed db t\<close>.
\<close>

datatype pydatetime =
    Aware datetime
  | Naive datetime

datatype dialect =
    Sqlite
  | Postgresql

definition refreshed :: "dialect \<Rightarrow> datetime \<Rightarrow> pydatetime" where
  "refreshed db t = (case db of Sqlite \<Rightarrow> Naive t | Postgresql \<Rightarrow> Aware t)"

text \<open>
  One row of \<open>watch_channels\<close>, as the session holds it. The table is the list of its
  rows in the order a \<open>select\<close> gives them; the column \<open>channel_id\<close> is unique.
\<close>

record WatchChannel =
  channel_id :: string
  resource_id :: "string option"
  resource_uri :: "string option"
  expiration :: "pydatetime option"
  channel_token :: "string option"
  channel_account_id :: string
  kind :: string

text \<open>
  The state of the service: the table, the number of values drawn from
  \<open>secrets.token_hex\<close> so far, and the client's state. The values drawn are given by
  \<open>token_hex\<close>: the \<open>n\<close>-th draw of \<open>k\<close> bytes.
\<close>

record 'c watch_state =
  ws_channels :: "WatchChannel list"
  ws_draws :: nat
  ws_client :: 'c

type_synonym entropy = "nat \<Rightarrow> nat \<Rightarrow> string"

definition list_channels :: "'c watch_state \<Rightarrow> WatchChannel list" where
  "list_channels st = ws_channels st"

definition get_channel :: "string \<Rightarrow> 'c watch_state \<Rightarrow> WatchChannel option" where
  "get_channel cid st = find (\<lambda>r. channel_id r = cid) (ws_channels st)"

text \<open>
  \<open>register_changes_watch\<close>, on the database \<open>db\<close>. The row returned and kept is the
  row after \<open>session.refresh\<close>.
\<close>

definition register_changes_watch ::
  "Settings \<Rightarrow> 'c drive_client \<Rightarrow> entropy \<Rightarrow> dialect \<Rightarrow> int \<Rightarrow> 'c watch_state
   \<Rightarrow> (error + WatchChannel) \<times> 'c watch_state" where
  "register_changes_watch S client token_hex db ttl_seconds st =
     (if \<not> truthy (connector_webhook_url S) then
        (Inl (ValueError ''CONNECTOR_WEBHOOK_URL must be configured to register watches''), st)
      else
        (let new_id = token_hex (ws_draws st) 16;
             secret = token_hex (Suc (ws_draws st)) 12;
             st1 = st\<lparr>ws_draws := Suc (Suc (ws_draws st))\<rparr>;
             body = \<lparr>wb_id = new_id, wb_type = ''web_hook'',
                     wb_address = the (connector_webhook_url S),
                     wb_token = secret, wb_ttl = ttl_seconds\<rparr>
         in case get_start_page_token client (ws_client st1) of
              (Inl e, c') \<Rightarrow> (Inl e, st1\<lparr>ws_client := c'\<rparr>)
            | (Inr start_token, c') \<Rightarrow>
                (case start_changes_watch client start_token body c' of
                   (Inl e, c'') \<Rightarrow> (Inl e, st1\<lparr>ws_client := c''\<rparr>)
                 | (Inr response, c'') \<Rightarrow>
                     (let expiration_ms =
                            (case wr_expiration response of Some n \<Rightarrow> n | None \<Rightarrow> 0);
                          row = \<lparr>channel_id = new_id,
                                 resource_id = wr_resourceId response,
                                 resource_uri = wr_resourceUri response,
                                 expiration =
                                   (if expiration_ms \<noteq> 0
                                    then Some (refreshed db (expiration_ms * 1000))
                                    else None),
                                 channel_token = Some secret,
                                 channel_account_id = googledrive_default_account_id S,
                                 kind = ''changes''\<rparr>;
                          st2 = st1\<lparr>ws_client := c''\<rparr>
                      in if new_id \<in> set (map channel_id (ws_channels st2)) then
                           (Inl IntegrityError, st2)
                         else (Inr row, st2\<lparr>ws_channels := ws_channels st2 @ [row]\<rparr>)))))"

definition delete_watch ::
  "'c drive_client \<Rightarrow> string \<Rightarrow> string option \<Rightarrow> 'c watch_state
   \<Rightarrow> (error + unit) \<times> 'c watch_state" where
  "delete_watch client cid rid st =
     (let row = get_channel cid st
      in case stop_channel client cid
                (py_or rid (case row of Some r \<Rightarrow> resource_id r | None \<Rightarrow> None))
                (ws_client st) of
           (Inl e, c') \<Rightarrow> (Inl e, st\<lparr>ws_client := c'\<rparr>)
         | (Inr u, c') \<Rightarrow>
             (case row of
                Some r \<Rightarrow> (Inr (), st\<lparr>ws_client := c', ws_channels := remove1 r (ws_channels st)\<rparr>)
              | None \<Rightarrow> (Inr (), st\<lparr>ws_client := c'\<rparr>)))"

definition ensure_valid_channel ::
  "string \<Rightarrow> string option \<Rightarrow> 'c watch_state \<Rightarrow> error + WatchChannel" where
  "ensure_valid_channel cid presented st =
     (case get_channel cid st of
        None \<Rightarrow> Inl (PermissionError ''Unknown channel'')
      | Some r \<Rightarrow>
          if truthy (channel_token r) \<and> presented \<noteq> channel_token r
          then Inl (PermissionError ''Invalid channel token'')
          else Inr r)"

text \<open>
  The test \<open>channel.expiration is None or channel.expiration - now > threshold\<close> of
  \<open>renew_channels\<close>, negated: a channel is passed over when it has no expiration or
  expires later than \<open>threshold\<close> from \<open>now\<close>. \<open>now\<close> is aware, and subtracting
  it from a naive expiration raises \<open>TypeError\<close>.
\<close>

definition needs_renewal :: "datetime \<Rightarrow> timedelta \<Rightarrow> WatchChannel \<Rightarrow> error + bool" where
  "needs_renewal now threshold channel =
     (case expiration channel of
        None \<Rightarrow> Inr False
      | Some (Aware t) \<Rightarrow> Inr (\<not> (t - now > threshold))
      | Some (Naive t) \<Rightarrow>
          Inl (TypeError ''can't subtract offset-naive and offset-aware datetimes''))"

text \<open>The comparison returned normally and found the channel due.\<close>

definition found_due :: "datetime \<Rightarrow> timedelta \<Rightarrow> WatchChannel \<Rightarrow> bool" where
  "found_due now threshold channel = (needs_renewal now threshold channel = Inr True)"

text \<open>The loop of \<open>renew_channels\<close> over the rows read at the start.\<close>

fun renew_loop ::
  "Settings \<Rightarrow> 'c drive_client \<Rightarrow> entropy \<Rightarrow> dialect \<Rightarrow> datetime \<Rightarrow> timedelta \<Rightarrow> int
   \<Rightarrow> WatchChannel list \<Rightarrow> string list \<Rightarrow> 'c watch_state
   \<Rightarrow> (error + string list) \<times> 'c watch_state" where
  "renew_loop S client token_hex db now threshold ttl_seconds [] renewed st = (Inr renewed, st)"
| "renew_loop S client token_hex db now threshold ttl_seconds (channel # rest) renewed st =
     (case needs_renewal now threshold channel of
        Inl e \<Rightarrow> (Inl e, st)
      | Inr due \<Rightarrow>
          if \<not> due then
            renew_loop S client token_hex db now threshold ttl_seconds rest renewed st
          else
            (case delete_watch client (channel_id channel) (resource_id channel) st of
               (Inl e, st') \<Rightarrow> (Inl e, st')
             | (Inr u, st') \<Rightarrow>
                 (case register_changes_watch S client token_hex db ttl_seconds st' of
                    (Inl e, st'') \<Rightarrow> (Inl e, st'')
                  | (Inr new_channel, st'') \<Rightarrow>
                      renew_loop S client token_hex db now threshold ttl_seconds rest
                        (renewed @ [channel_id new_channel]) st'')))"

definition renew_channels ::
  "Settings \<Rightarrow> 'c drive_client \<Rightarrow> entropy \<Rightarrow> dialect \<Rightarrow> datetime \<Rightarrow> timedelta \<Rightarrow> int
   \<Rightarrow> 'c watch_state \<Rightarrow> (error + string list) \<times> 'c watch_state" where
  "renew_channels S client token_hex db now threshold ttl_seconds st =
     renew_loop S client token_hex db now threshold ttl_seconds (list_channels st) [] st"

section \<open>What the interface says of a renewal\<close>

text \<open>
  The renewal of the channels \<open>chs\<close> as the specification words it, apart from the
  table: for each channel in turn, the channel is stopped with its identifier and its
  resource identifier, a start token is read, and a watch is registered with a fresh
  identifier, the callback address, a fresh secret and the time to live. The new row has
  the fresh identifier and secret, the resource identifier and address of the answer, and
  the expiration of the answer, counted in milliseconds (none when the answer has none or
  zero), as the database gives it back. The result is the new rows, the number of values
  drawn and the client's state, or \<open>None\<close> when a call fails.
\<close>

fun spec_renewals ::
  "Settings \<Rightarrow> 'c drive_client \<Rightarrow> entropy \<Rightarrow> dialect \<Rightarrow> int \<Rightarrow> WatchChannel list \<Rightarrow> nat
   \<Rightarrow> 'c \<Rightarrow> (WatchChannel list \<times> nat \<times> 'c) option" where
  "spec_renewals S client token_hex db ttl_seconds [] n c = Some ([], n, c)"
| "spec_renewals S client token_hex db ttl_seconds (ch # chs) n c =
     (case stop_channel client (channel_id ch) (resource_id ch) c of
        (Inl e, c1) \<Rightarrow> None
      | (Inr u, c1) \<Rightarrow>
          (case get_start_page_token client c1 of
             (Inl e, c2) \<Rightarrow> None
           | (Inr start_token, c2) \<Rightarrow>
               (case start_changes_watch client start_token
                       \<lparr>wb_id = token_hex n 16, wb_type = ''web_hook'',
                        wb_address = the (connector_webhook_url S),
                        wb_token = token_hex (Suc n) 12, wb_ttl = ttl_seconds\<rparr> c2 of
                  (Inl e, c3) \<Rightarrow> None
                | (Inr answer, c3) \<Rightarrow>
                    (case spec_renewals S client token_hex db ttl_seconds chs (Suc (Suc n)) c3 of
                       None \<Rightarrow> None
                     | Some (rows, n', c') \<Rightarrow>
                         Some (\<lparr>channel_id = token_hex n 16,
                                 resource_id = wr_resourceId answer,
                                 resource_uri = wr_resourceUri answer,
                                 expiration =
                                   (case wr_expiration answer of
                                      None \<Rightarrow> None
                                    | Some ms \<Rightarrow>
                                        if ms = 0 then None
                                        else Some (refreshed db (ms * 1000))),
                                 channel_token = Some (token_hex (Suc n) 12),
                                 channel_account_id = googledrive_default_account_id S,
                                 kind = ''changes''\<rparr> # rows, n', c')))))"

section \<open>Stub clients of the unit tests\<close>

text \<open>
  The stubs of \<open>tests/unit\<close>, with the calls they receive kept in a log, which is
  the client state.
\<close>

datatype call =
    GetStartPageToken
  | ListChanges string int
  | StartChangesWatch string watch_body
  | StopChannel string "string option"

text \<open>\<open>StubChangeClient(changes, new_token)\<close> of \<open>test_services_files.py\<close>.\<close>

definition StubChangeClient :: "change list \<Rightarrow> string \<Rightarrow> call list drive_client" where
  "StubChangeClient stub_changes new_token =
     \<lparr>get_start_page_token = (\<lambda>log. (Inr ''start-token'', log @ [GetStartPageToken])),
      list_changes = (\<lambda>page_token page_size log.
        (Inr \<lparr>pl_changes = Some stub_changes,
               pl_newStartPageToken = Some new_token,
               pl_nextPageToken = None\<rparr>,
         log @ [ListChanges page_token page_size])),
      start_changes_watch = (\<lambda>page_token body log.
        (Inl (OtherError ''AttributeError''), log)),
      stop_channel = (\<lambda>cid rid log. (Inl (OtherError ''AttributeError''), log))\<rparr>"

text \<open>
  \<open>StubClient\<close> of \<open>test_watch_service.py\<close>; the expiration it answers is the
  parameter \<open>expiration_ms\<close>. \<open>refused\<close> lists the channels whose \<open>stop\<close> call
  the server refuses with status 404, which the pipeline raises as a client error; the
  stub of the test refuses none.
\<close>

definition StubClient :: "int \<Rightarrow> string list \<Rightarrow> call list drive_client" where
  "StubClient expiration_ms refused =
     \<lparr>get_start_page_token = (\<lambda>log. (Inr ''token-1'', log @ [GetStartPageToken])),
      list_changes = (\<lambda>page_token page_size log.
        (Inl (OtherError ''AttributeError''), log)),
      start_changes_watch = (\<lambda>page_token body log.
        (Inr \<lparr>wr_resourceId = Some ''resource-1'',
               wr_resourceUri = Some ''https://example.com'',
               wr_expiration = Some expiration_ms\<rparr>,
         log @ [StartChangesWatch page_token body])),
      stop_channel = (\<lambda>cid rid log.
        if cid \<in> set refused then
          (Inl (DriveAPIError ''Drive API returned error'' 404 None),
           log @ [StopChannel cid rid])
        else (Inr (), log @ [StopChannel cid rid]))\<rparr>"

text \<open>Values for \<open>secrets.token_hex\<close> taken from a list, in order.\<close>

definition draws_from :: "string list \<Rightarrow> entropy" where
  "draws_from xs n k = (if n < length xs then xs ! n else [])"

text \<open>The settings of the tests (\<open>tests/conftest.py\<close> gives the values).\<close>

definition test_settings :: "string option \<Rightarrow> string option \<Rightarrow> Settings" where
  "test_settings refresh key_path =
     \<lparr>googledrive_client_id = ''client'',
      googledrive_client_secret = ''secret'',
      googledrive_refresh_token = refresh,
      googledrive_service_account_key_path = key_path,
      googledrive_token_url = ''https://oauth2.googleapis.com/token'',
      googledrive_scopes = [''https://www.googleapis.com/auth/drive.readonly''],
      googledrive_default_account_id = ''default'',
      connector_webhook_url = Some ''https://example.com/webhook''\<rparr>"

section \<open>Sequences of calls\<close>

text \<open>\<open>get_token\<close> called for the same account at each of the instants given.\<close>

fun get_token_calls ::
  "identity_provider \<Rightarrow> string option \<Rightarrow> datetime list \<Rightarrow> OAuthTokenProvider
   \<Rightarrow> (error + string) list \<times> OAuthTokenProvider" where
  "get_token_calls idp account [] P = ([], P)"
| "get_token_calls idp account (now # nows) P =
     (let (r, P') = get_token idp now account P;
          (rs, P'') = get_token_calls idp account nows P'
      in (r # rs, P''))"

section \<open>Concrete states\<close>

definition alice_row :: TokenCredential where
  "alice_row =
     \<lparr>account_id = ''alice'', access_token = Some ''token'',
      refresh_token = Some ''refresh'', expires_at = Some 5, scopes = Some ''scope'',
      is_service_account = False\<rparr>"

definition abc_channel :: WatchChannel where
  "abc_channel =
     \<lparr>channel_id = ''abc'', resource_id = Some ''rid'',
      resource_uri = Some ''https://example.com'', expiration = None,
      channel_token = Some ''s3cret'', channel_account_id = ''default'', kind = ''sync''\<rparr>"

definition one_channel :: "WatchChannel \<Rightarrow> call list watch_state" where
  "one_channel r = \<lparr>ws_channels = [r], ws_draws = 0, ws_client = []\<rparr>"

definition files_checkpoint :: "string option \<Rightarrow> datetime \<Rightarrow> SyncCheckpoint" where
  "files_checkpoint cur synced =
     \<lparr>cp_account_id = ''default'', cp_resource = ''files'',
      cursor = cur, last_synced_at = Some synced\<rparr>"

definition files_table :: "string option \<Rightarrow> datetime \<Rightarrow> checkpoints" where
  "files_table cur synced = [(''default'', ''files'') \<mapsto> files_checkpoint cur synced]"

text \<open>
  A client whose page fetch fails as the pipeline does against a server that answers 503
  to every attempt.
\<close>

definition UnavailableChangeClient :: "call list drive_client" where
  "UnavailableChangeClient =
     (StubChangeClient [] ''new-token'')
       \<lparr>list_changes := (\<lambda>page_token page_size log.
          (Inl (RetryError (DriveRetriableError ''Drive API throttled or server error'' 503
                              (Some (Text ''unavailable'')))),
           log @ [ListChanges page_token page_size]))\<rparr>"

text \<open>The constructor with no default account given.\<close>

definition new_provider :: "Settings \<Rightarrow> bool \<Rightarrow> credentials \<Rightarrow> OAuthTokenProvider" where
  "new_provider S repo store =
     \<lparr>p_settings = S, p_has_repository = repo,
      p_default_account_id = googledrive_default_account_id S,
      p_tokens = Map.empty, p_store = store, p_posted = [], p_refreshes = 0\<rparr>"

text \<open>The constructor of the client, with no account given.\<close>

definition new_client :: "OAuthTokenProvider \<Rightarrow> GoogleDriveClient" where
  "new_client P =
     \<lparr>c_token_provider = P, c_account_id = googledrive_default_account_id (p_settings P),
      c_sent = [], c_observed = []\<rparr>"

text \<open>The token endpoint of \<open>test_oauth_provider.py\<close>; no service account.\<close>

definition respx_token_endpoint :: "string \<Rightarrow> int \<Rightarrow> identity_provider" where
  "respx_token_endpoint tok expires_in =
     \<lparr>token_endpoint = (\<lambda>posted req.
        TokenResponse \<lparr>tr_status_code = 200, tr_error_description = None, tr_error = None,
                       tr_access_token = Some tok, tr_expires_in = Some expires_in,
                       tr_refresh_token = None, tr_scope = None\<rparr>),
      service_account_refresh = (\<lambda>n. Inl (OtherError ''no service account''))\<rparr>"

text \<open>Servers for the Drive API: one that answers 503 to every request, and one that answers
  401 to the first request and 200 afterwards (as in \<open>test_drive_client.py\<close>).\<close>

definition always_503 :: drive_api where
  "always_503 sent req =
     Response \<lparr>status_code = 503, response_text = ''unavailable'', json_body = None\<rparr>"

definition unauthorized_once :: drive_api where
  "unauthorized_once sent req =
     (if sent = [] then
        Response \<lparr>status_code = 401, response_text = ''unauthorized'', json_body = None\<rparr>
      else
        Response \<lparr>status_code = 200, response_text = ''{}'', json_body = Some (JObj [])\<rparr>)"


text \<open>
  The number of token exchanges made so far: the requests posted to the token endpoint and
  the refreshes of the service-account credentials.
\<close>

definition exchanges :: "OAuthTokenProvider \<Rightarrow> nat" where
  "exchanges P = length (p_posted P) + p_refreshes P"

text \<open>
  A provider built with a repository, as \<open>get_drive_client\<close> and
  \<open>connector_context\<close> build it; the request and the rows it meets when a token
  \<open>stale\<close> has been exchanged at instant 0 with a lifetime of 3600 seconds.
\<close>

definition provider_with_repository :: OAuthTokenProvider where
  "provider_with_repository =
     new_provider (test_settings (Some ''refresh'') None) True Map.empty"

definition files_request :: "string \<Rightarrow> http_request" where
  "files_request tok =
     \<lparr>rq_method = ''GET'', rq_url = ''/files'', rq_params = [], rq_json = None,
      rq_data = None, rq_files = None,
      rq_headers = [(''Authorization'', ''Bearer '' @ tok), (''Accept'', ''application/json'')],
      rq_stream = False\<rparr>"

definition stale_row :: TokenCredential where
  "stale_row =
     \<lparr>account_id = ''default'', access_token = Some ''stale'',
      refresh_token = Some ''refresh'', expires_at = Some (seconds 3600), scopes = None,
      is_service_account = False\<rparr>"

definition refresh_form :: token_request where
  "refresh_form =
     \<lparr>tq_url = ''https://oauth2.googleapis.com/token'',
      tq_client_id = ''client'', tq_client_secret = ''secret'',
      tq_grant_type = ''refresh_token'', tq_refresh_token = ''refresh'',
      tq_scope = None\<rparr>"

definition holding_stale :: OAuthTokenProvider where
  "holding_stale =
     provider_with_repository
       \<lparr>p_tokens := [''default'' \<mapsto> \<lparr>token = ''stale'', token_expires_at = Some (seconds 3600)\<rparr>],
        p_store := [''default'' \<mapsto> stale_row],
        p_posted := [refresh_form]\<rparr>"

text \<open>A server that answers every request with the status \<open>sc\<close>.\<close>

definition always_answers :: "int \<Rightarrow> drive_api \<Rightarrow> bool" where
  "always_answers sc api = (\<forall>sent req. \<exists>r. api sent req = Response r \<and> status_code r = sc)"

text \<open>
  The example of the renewal: at instant \<open>seconds 36000\<close>, three channels that expire
  an hour before, half an hour after and ten hours after, their expirations aware, as
  \<open>test_renew_channels\<close> assigns them in memory; the rows, read back from SQLite, and
  the request bodies of the channels registered in their place; the state once the first
  is renewed.
\<close>

definition example_channel :: "string \<Rightarrow> string \<Rightarrow> datetime \<Rightarrow> WatchChannel" where
  "example_channel cid rid expires =
     \<lparr>channel_id = cid, resource_id = Some rid,
      resource_uri = Some ''https://example.com'', expiration = Some (Aware expires),
      channel_token = Some ''secret-0'', channel_account_id = ''default'',
      kind = ''changes''\<rparr>"

definition three_channels :: "call list watch_state" where
  "three_channels =
     \<lparr>ws_channels = [example_channel ''chan-1'' ''res-1'' (seconds 32400),
                     example_channel ''chan-2'' ''res-2'' (seconds 37800),
                     example_channel ''chan-3'' ''res-3'' (seconds 72000)],
      ws_draws = 0, ws_client = []\<rparr>"

definition example_draws :: entropy where
  "example_draws = draws_from [''new-1'', ''secret-1'', ''new-2'', ''secret-2'']"

definition renewed_channel :: "string \<Rightarrow> string \<Rightarrow> WatchChannel" where
  "renewed_channel cid secret =
     \<lparr>channel_id = cid, resource_id = Some ''resource-1'',
      resource_uri = Some ''https://example.com'',
      expiration = Some (Naive (seconds 122400)),
      channel_token = Some secret, channel_account_id = ''default'', kind = ''changes''\<rparr>"

definition example_body :: "string \<Rightarrow> string \<Rightarrow> watch_body" where
  "example_body cid secret =
     \<lparr>wb_id = cid, wb_type = ''web_hook'', wb_address = ''https://example.com/webhook'',
      wb_token = secret, wb_ttl = 86400\<rparr>"

definition after_first_renewal :: "call list watch_state" where
  "after_first_renewal =
     \<lparr>ws_channels = [example_channel ''chan-2'' ''res-2'' (seconds 37800),
                     example_channel ''chan-3'' ''res-3'' (seconds 72000),
                     renewed_channel ''new-1'' ''secret-1''],
      ws_draws = Suc (Suc 0),
      ws_client = [StopChannel ''chan-1'' (Some ''res-1''), GetStartPageToken,
                   StartChangesWatch ''token-1'' (example_body ''new-1'' ''secret-1'')]\<rparr>"

text \<open>
  The three channels of the example as SQLite gives their rows back, with naive
  expirations; the state once one channel has been registered on SQLite from an empty
  table; the error Python raises for the difference of a naive and an aware value.
\<close>

definition naive_channel :: "string \<Rightarrow> string \<Rightarrow> datetime \<Rightarrow> WatchChannel" where
  "naive_channel cid rid expires =
     \<lparr>channel_id = cid, resource_id = Some rid,
      resource_uri = Some ''https://example.com'', expiration = Some (Naive expires),
      channel_token = Some ''secret-0'', channel_account_id = ''default'',
      kind = ''changes''\<rparr>"

definition three_naive_channels :: "call list watch_state" where
  "three_naive_channels =
     \<lparr>ws_channels = [naive_channel ''chan-1'' ''res-1'' (seconds 32400),
                     naive_channel ''chan-2'' ''res-2'' (seconds 37800),
                     naive_channel ''chan-3'' ''res-3'' (seconds 72000)],
      ws_draws = 0, ws_client = []\<rparr>"

definition no_channels :: "call list watch_state" where
  "no_channels = \<lparr>ws_channels = [], ws_draws = 0, ws_client = []\<rparr>"

definition just_registered :: "call list watch_state" where
  "just_registered =
     \<lparr>ws_channels = [renewed_channel ''new-1'' ''secret-1''],
      ws_draws = Suc (Suc 0),
      ws_client = [GetStartPageToken,
                   StartChangesWatch ''token-1'' (example_body ''new-1'' ''secret-1'')]\<rparr>"

definition naive_subtraction :: error where
  "naive_subtraction = TypeError ''can't subtract offset-naive and offset-aware datetimes''"

section \<open>Properties\<close>

subsection \<open>Credential store\<close>

lemma upsert_get:
  "get_credentials acct (snd (upsert_credentials now acct a nr e sc sa tbl))
     = Some (fst (upsert_credentials now acct a nr e sc sa tbl))"
  by (simp add: upsert_credentials_def get_credentials_def Let_def)

lemma upsert_fst_refresh:
  assumes "get_credentials acct tbl = Some r"
  shows "refresh_token (fst (upsert_credentials now acct a nr e sc sa tbl))
         = (if truthy nr then nr else refresh_token r)"
  using assms by (simp add: upsert_credentials_def Let_def)

lemma service_account_keeps_refresh_token:
  assumes "get_credentials acct (p_store P) = Some r"
  shows "\<exists>r'. get_credentials acct (p_store (snd (get_token_service_account idp now acct P)))
                = Some r' \<and> refresh_token r' = refresh_token r"
  using assms
  by (simp add: get_token_service_account_def Let_def upsert_get upsert_fst_refresh truthy_def
      case_prod_beta split: sum.splits)

text \<open>
  C10. When the stored credential of an account has a non-null refresh token, an
  \<open>upsert_credentials\<close> call with \<open>refresh_token=None\<close> leaves it as it is: the row
  written back still holds it. Whatever refresh token an upsert is given, the stored one
  is afterwards the argument when that is truthy and the old one otherwise, so it is never
  cleared. The service-account path of \<open>get_token\<close>, which passes \<open>None\<close>, leaves it
  as it is too.
\<close>

theorem upsert_credentials_keeps_refresh_token:
  assumes "get_credentials acct tbl = Some r" and "refresh_token r = Some rt"
  shows "refresh_token (fst (upsert_credentials now acct a None e sc sa tbl)) = Some rt
       \<and> get_credentials acct (snd (upsert_credentials now acct a None e sc sa tbl))
           = Some (fst (upsert_credentials now acct a None e sc sa tbl))
       \<and> refresh_token (fst (upsert_credentials now acct a nr e sc sa tbl))
           = (if truthy nr then nr else Some rt)
       \<and> refresh_token (fst (upsert_credentials now acct a nr e sc sa tbl)) \<noteq> None
       \<and> (truthy (googledrive_service_account_key_path (p_settings P))
            \<and> p_store P = tbl \<and> resolve_account account P = acct
          \<longrightarrow> (\<exists>r'. get_credentials acct (p_store (snd (get_token idp now account P))) = Some r'
                    \<and> refresh_token r' = Some rt))"
proof -
  have keep: "refresh_token (fst (upsert_credentials now acct a nr e sc sa tbl))
                = (if truthy nr then nr else Some rt)" for nr
    using assms by (simp add: upsert_fst_refresh)
  have none: "refresh_token (fst (upsert_credentials now acct a None e sc sa tbl)) = Some rt"
    using keep [of None] by (simp add: truthy_def)
  have nonnull: "refresh_token (fst (upsert_credentials now acct a nr e sc sa tbl)) \<noteq> None"
    using keep [of nr] by (auto simp: truthy_def)
  have path: "\<exists>r'. get_credentials acct (p_store (snd (get_token idp now account P))) = Some r'
                    \<and> refresh_token r' = Some rt"
    if "truthy (googledrive_service_account_key_path (p_settings P))"
      and "p_store P = tbl" and "resolve_account account P = acct"
  proof (cases "p_tokens P acct \<noteq> None \<and> is_valid now (the (p_tokens P acct))")
    case True
    then show ?thesis using that assms by (simp add: get_token_def Let_def)
  next
    case False
    then have "get_token idp now account P = get_token_service_account idp now acct P"
      using that by (auto simp add: get_token_def Let_def)
    then show ?thesis
      using service_account_keeps_refresh_token [of acct P r idp now] that assms by simp
  qed
  show ?thesis using keep none nonnull path upsert_get by blast
qed

theorem upsert_credentials_keeps_refresh_token_witness:
  "get_credentials ''alice'' [''alice'' \<mapsto> alice_row] = Some alice_row
   \<and> refresh_token alice_row = Some ''refresh''
   \<and> refresh_token (fst (upsert_credentials 0 ''alice'' ''service-token'' None 3600 None True
                           [''alice'' \<mapsto> alice_row])) = Some ''refresh''"
proof -
  have h1: "get_credentials ''alice'' [''alice'' \<mapsto> alice_row] = Some alice_row"
    by (simp add: get_credentials_def)
  have h2: "refresh_token alice_row = Some ''refresh''"
    by (simp add: alice_row_def)
  show ?thesis
    using h1 h2
      upsert_credentials_keeps_refresh_token [OF h1 h2, THEN conjunct1,
        of 0 "''service-token''" 3600 None True]
    by simp
qed

subsection \<open>Webhook validation\<close>

text \<open>
  C7. \<open>ensure_valid_channel\<close> (the \<open>validate_webhook\<close> of the interface) fails with
  \<open>PermissionError\<close> when the channel is unknown. When the channel is known and stores
  a secret (a non-empty token), the call succeeds exactly when the presented token equals
  the secret, and fails with \<open>PermissionError\<close> for every other presented value, the
  empty string and \<open>None\<close> among them. When the known channel stores no secret (none,
  or the empty string), the call succeeds whatever is presented.
\<close>

theorem ensure_valid_channel_token_matching:
  "(get_channel cid st = None
      \<longrightarrow> ensure_valid_channel cid presented st = Inl (PermissionError ''Unknown channel''))
   \<and> (get_channel cid st = Some r \<and> channel_token r = Some secret \<and> secret \<noteq> []
      \<longrightarrow> (ensure_valid_channel cid presented st = Inr r \<longleftrightarrow> presented = Some secret)
        \<and> (presented \<noteq> Some secret
            \<longrightarrow> ensure_valid_channel cid presented st
                = Inl (PermissionError ''Invalid channel token''))
        \<and> ensure_valid_channel cid (Some []) st = Inl (PermissionError ''Invalid channel token'')
        \<and> ensure_valid_channel cid None st = Inl (PermissionError ''Invalid channel token''))
   \<and> (get_channel cid st = Some r \<and> \<not> truthy (channel_token r)
      \<longrightarrow> ensure_valid_channel cid presented st = Inr r)"
  by (auto simp add: ensure_valid_channel_def truthy_def)

theorem ensure_valid_channel_token_matching_witness:
  "get_channel ''abc'' (one_channel abc_channel) = Some abc_channel
   \<and> channel_token abc_channel = Some ''s3cret''
   \<and> ensure_valid_channel ''abc'' (Some ''s3cret'') (one_channel abc_channel) = Inr abc_channel
   \<and> ensure_valid_channel ''abc'' (Some ''wrong'') (one_channel abc_channel)
       = Inl (PermissionError ''Invalid channel token'')
   \<and> ensure_valid_channel ''abc'' (Some []) (one_channel abc_channel)
       = Inl (PermissionError ''Invalid channel token'')
   \<and> ensure_valid_channel ''abc'' None (one_channel abc_channel)
       = Inl (PermissionError ''Invalid channel token'')
   \<and> get_channel ''xyz'' (one_channel abc_channel) = None
   \<and> ensure_valid_channel ''xyz'' (Some ''s3cret'') (one_channel abc_channel)
       = Inl (PermissionError ''Unknown channel'')
   \<and> \<not> truthy (channel_token (abc_channel\<lparr>channel_token := None\<rparr>))
   \<and> ensure_valid_channel ''abc'' (Some ''anything'')
         (one_channel (abc_channel\<lparr>channel_token := None\<rparr>))
       = Inr (abc_channel\<lparr>channel_token := None\<rparr>)"
proof -
  have known: "get_channel ''abc'' (one_channel abc_channel) = Some abc_channel"
    by (simp add: get_channel_def one_channel_def abc_channel_def)
  have secret: "channel_token abc_channel = Some ''s3cret''"
    by (simp add: abc_channel_def)
  have unknown: "get_channel ''xyz'' (one_channel abc_channel) = None"
    by (simp add: get_channel_def one_channel_def abc_channel_def)
  have known': "get_channel ''abc'' (one_channel (abc_channel\<lparr>channel_token := None\<rparr>))
                  = Some (abc_channel\<lparr>channel_token := None\<rparr>)"
    by (simp add: get_channel_def one_channel_def abc_channel_def)
  have nosecret: "\<not> truthy (channel_token (abc_channel\<lparr>channel_token := None\<rparr>))"
    by (simp add: truthy_def)
  note T = ensure_valid_channel_token_matching
  show ?thesis
    using known secret unknown nosecret
      T [of "''abc''" "one_channel abc_channel" "Some ''s3cret''" abc_channel "''s3cret''"]
      T [of "''abc''" "one_channel abc_channel" "Some ''wrong''" abc_channel "''s3cret''"]
      T [of "''xyz''" "one_channel abc_channel" "Some ''s3cret''" abc_channel "''s3cret''"]
      T [of "''abc''" "one_channel (abc_channel\<lparr>channel_token := None\<rparr>)" "Some ''anything''"
           "abc_channel\<lparr>channel_token := None\<rparr>" "''s3cret''"]
      known'
    by simp
qed

subsection \<open>Change sync engine\<close>

lemma sync_changes_error_table:
  assumes "sync_changes client acct now resource page_size (tbl, c) = (Inl e, st')"
  shows "fst st' = tbl"
  using assms
  by (auto simp add: sync_changes_def Let_def split: if_splits prod.splits sum.splits)

text \<open>
  C3. When the page fetch of a \<open>sync_changes\<close> call raises, the call raises the same
  error, and the checkpoint table is the one from before the call, so the row of the
  resource still holds the old cursor and the old timestamp. More generally, whenever
  \<open>sync_changes\<close> raises (also when the start token cannot be read), the table is
  unchanged.
\<close>

theorem sync_changes_failure_keeps_checkpoint:
  "(get_checkpoint acct resource tbl = Some cp \<and> truthy (cursor cp)
      \<and> list_changes client (the (cursor cp)) page_size c = (Inl e, c')
     \<longrightarrow> sync_changes client acct now resource page_size (tbl, c) = (Inl e, (tbl, c'))
        \<and> get_checkpoint acct resource
             (fst (snd (sync_changes client acct now resource page_size (tbl, c)))) = Some cp)
   \<and> (fst (sync_changes client acct now resource page_size (tbl, c)) = Inl e
     \<longrightarrow> fst (snd (sync_changes client acct now resource page_size (tbl, c))) = tbl)"
proof -
  have "fst (snd (sync_changes client acct now resource page_size (tbl, c))) = tbl"
    if "fst (sync_changes client acct now resource page_size (tbl, c)) = Inl e"
    using that sync_changes_error_table
      [of client acct now resource page_size tbl c e
          "snd (sync_changes client acct now resource page_size (tbl, c))"]
    by (metis prod.collapse)
  then show ?thesis by (simp add: sync_changes_def)
qed

theorem sync_changes_failure_keeps_checkpoint_witness:
  "get_checkpoint ''default'' ''files'' (files_table (Some ''cursor-1'') 1000)
     = Some (files_checkpoint (Some ''cursor-1'') 1000)
   \<and> truthy (cursor (files_checkpoint (Some ''cursor-1'') 1000))
   \<and> sync_changes UnavailableChangeClient ''default'' 2000 ''files'' 100
        (files_table (Some ''cursor-1'') 1000, [])
       = (Inl (RetryError (DriveRetriableError ''Drive API throttled or server error'' 503
                             (Some (Text ''unavailable'')))),
          (files_table (Some ''cursor-1'') 1000, [ListChanges ''cursor-1'' 100]))"
proof -
  have h1: "get_checkpoint ''default'' ''files'' (files_table (Some ''cursor-1'') 1000)
              = Some (files_checkpoint (Some ''cursor-1'') 1000)"
    by (simp add: get_checkpoint_def files_table_def)
  have h2: "truthy (cursor (files_checkpoint (Some ''cursor-1'') 1000))"
    by (simp add: truthy_def files_checkpoint_def)
  have h3: "list_changes UnavailableChangeClient
              (the (cursor (files_checkpoint (Some ''cursor-1'') 1000))) 100 []
            = (Inl (RetryError (DriveRetriableError ''Drive API throttled or server error'' 503
                                  (Some (Text ''unavailable'')))),
               [ListChanges ''cursor-1'' 100])"
    by (simp add: UnavailableChangeClient_def files_checkpoint_def)
  show ?thesis
    using h1 h2 h3
      sync_changes_failure_keeps_checkpoint
        [of "''default''" "''files''" "files_table (Some ''cursor-1'') 1000"
            "files_checkpoint (Some ''cursor-1'') 1000" UnavailableChangeClient 100 "[]"
            "RetryError (DriveRetriableError ''Drive API throttled or server error'' 503
                           (Some (Text ''unavailable'')))"
            "[ListChanges ''cursor-1'' 100]" 2000]
    by simp
qed

text \<open>
  C4. With a cursor in the checkpoint, \<open>sync_changes\<close> makes one \<open>list_changes\<close> call
  with that cursor (the client state afterwards is the state after that one call). The
  cursor written is the new start token when the response has one, else its next page
  token; when the response has neither, the old cursor is written again. The cursor and
  \<open>now\<close> are written whatever the list of changes is. The result has
  \<open>initialised = False\<close>, and \<open>has_more\<close> tells whether the response had a next
  page token.
\<close>

theorem sync_changes_steady_state:
  assumes "get_checkpoint acct resource tbl = Some cp" and "truthy (cursor cp)"
    and "list_changes client (the (cursor cp)) page_size c = (Inr pl, c')"
  shows "sync_changes client acct now resource page_size (tbl, c) =
           (Inr \<lparr>sr_changes = (case pl_changes pl of Some cs \<Rightarrow> cs | None \<Rightarrow> []),
                 sr_cursor =
                   (if truthy (pl_newStartPageToken pl) then the (pl_newStartPageToken pl)
                    else if truthy (pl_nextPageToken pl) then the (pl_nextPageToken pl)
                    else the (cursor cp)),
                 sr_initialised = False,
                 sr_has_more = truthy (pl_nextPageToken pl)\<rparr>,
            (tbl((acct, resource) \<mapsto>
               cp\<lparr>cursor :=
                     Some (if truthy (pl_newStartPageToken pl) then the (pl_newStartPageToken pl)
                           else if truthy (pl_nextPageToken pl) then the (pl_nextPageToken pl)
                           else the (cursor cp)),
                   last_synced_at := Some now\<rparr>),
             c'))"
  using assms
  by (auto simp add: sync_changes_def upsert_checkpoint_def py_or_def truthy_def Let_def)

theorem sync_changes_steady_state_witness:
  "get_checkpoint ''default'' ''files'' (files_table (Some ''start-token'') 1000)
     = Some (files_checkpoint (Some ''start-token'') 1000)
   \<and> truthy (cursor (files_checkpoint (Some ''start-token'') 1000))
   \<and> list_changes (StubChangeClient [[(''fileId'', ''abc'')]] ''cursor-2'')
        (the (cursor (files_checkpoint (Some ''start-token'') 1000))) 100 [GetStartPageToken]
       = (Inr \<lparr>pl_changes = Some [[(''fileId'', ''abc'')]],
               pl_newStartPageToken = Some ''cursor-2'', pl_nextPageToken = None\<rparr>,
          [GetStartPageToken, ListChanges ''start-token'' 100])
   \<and> sync_changes (StubChangeClient [[(''fileId'', ''abc'')]] ''cursor-2'') ''default'' 2000
        ''files'' 100 (files_table (Some ''start-token'') 1000, [GetStartPageToken])
       = (Inr \<lparr>sr_changes = [[(''fileId'', ''abc'')]], sr_cursor = ''cursor-2'',
               sr_initialised = False, sr_has_more = False\<rparr>,
          (files_table (Some ''cursor-2'') 2000,
           [GetStartPageToken, ListChanges ''start-token'' 100]))"
proof -
  have h1: "get_checkpoint ''default'' ''files'' (files_table (Some ''start-token'') 1000)
              = Some (files_checkpoint (Some ''start-token'') 1000)"
    by (simp add: get_checkpoint_def files_table_def)
  have h2: "truthy (cursor (files_checkpoint (Some ''start-token'') 1000))"
    by (simp add: truthy_def files_checkpoint_def)
  have h3: "list_changes (StubChangeClient [[(''fileId'', ''abc'')]] ''cursor-2'')
        (the (cursor (files_checkpoint (Some ''start-token'') 1000))) 100 [GetStartPageToken]
       = (Inr \<lparr>pl_changes = Some [[(''fileId'', ''abc'')]],
               pl_newStartPageToken = Some ''cursor-2'', pl_nextPageToken = None\<rparr>,
          [GetStartPageToken, ListChanges ''start-token'' 100])"
    by (simp add: StubChangeClient_def files_checkpoint_def)
  show ?thesis
    using h1 h2 h3 sync_changes_steady_state [OF h1 h2 h3, of 2000]
    by (simp add: truthy_def files_table_def files_checkpoint_def)
qed

text \<open>
  C5. Without a checkpoint for the resource, or with one whose cursor is absent,
  \<open>sync_changes\<close> makes one \<open>get_start_page_token\<close> call and no other call of the
  client, writes the token as the cursor, and returns no changes, the token as the cursor,
  \<open>initialised = True\<close> and \<open>has_more = False\<close>. This holds for every state in which
  the resource is not initialised.
\<close>

theorem sync_changes_initialises:
  assumes "get_checkpoint acct resource tbl = None
           \<or> (\<exists>cp. get_checkpoint acct resource tbl = Some cp \<and> \<not> truthy (cursor cp))"
    and "get_start_page_token client c = (Inr start_token, c')"
  shows "sync_changes client acct now resource page_size (tbl, c) =
           (Inr \<lparr>sr_changes = [], sr_cursor = start_token,
                 sr_initialised = True, sr_has_more = False\<rparr>,
            (snd (upsert_checkpoint acct resource (Some start_token) (Some now) tbl), c'))
       \<and> (\<exists>cp'. get_checkpoint acct resource
                   (snd (upsert_checkpoint acct resource (Some start_token) (Some now) tbl))
                  = Some cp'
                \<and> cursor cp' = Some start_token \<and> last_synced_at cp' = Some now)"
  using assms
  by (auto simp add: sync_changes_def upsert_checkpoint_def get_checkpoint_def Let_def)

theorem sync_changes_initialises_witness:
  "get_checkpoint ''default'' ''files'' Map.empty = None
   \<and> get_start_page_token (StubChangeClient [] ''new-token'') [] = (Inr ''start-token'', [GetStartPageToken])
   \<and> sync_changes (StubChangeClient [] ''new-token'') ''default'' 1000 ''files'' 100
        (Map.empty, [])
       = (Inr \<lparr>sr_changes = [], sr_cursor = ''start-token'',
               sr_initialised = True, sr_has_more = False\<rparr>,
          (files_table (Some ''start-token'') 1000, [GetStartPageToken]))"
proof -
  have h1: "get_checkpoint ''default'' ''files'' Map.empty = None
            \<or> (\<exists>cp. get_checkpoint ''default'' ''files'' Map.empty = Some cp
                    \<and> \<not> truthy (cursor cp))"
    by (simp add: get_checkpoint_def)
  have h2: "get_start_page_token (StubChangeClient [] ''new-token'') []
              = (Inr ''start-token'', [GetStartPageToken])"
    by (simp add: StubChangeClient_def)
  show ?thesis
    using h2 sync_changes_initialises [OF h1 h2, of 1000 100]
    by (simp add: get_checkpoint_def upsert_checkpoint_def files_table_def
        files_checkpoint_def Let_def)
qed

subsection \<open>Token provider\<close>

lemma get_token_cached:
  assumes "p_tokens P (resolve_account account P) = Some t" and "is_valid now t"
  shows "get_token idp now account P = (Inr (token t), P)"
  using assms by (simp add: get_token_def Let_def)

lemma get_token_calls_cached:
  assumes "p_tokens P (resolve_account account P) = Some t"
    and "\<forall>now \<in> set nows. is_valid now t"
  shows "get_token_calls idp account nows P = (replicate (length nows) (Inr (token t)), P)"
  using assms by (induction nows) (simp_all add: get_token_cached)

lemma service_account_caches:
  assumes "get_token_service_account idp now acct P = (Inr tok, P1)"
  shows "(\<exists>t. p_tokens P1 acct = Some t \<and> token t = tok)
       \<and> p_default_account_id P1 = p_default_account_id P
       \<and> exchanges P1 = Suc (exchanges P)"
  using assms
  by (auto simp add: get_token_service_account_def Let_def exchanges_def case_prod_beta
      split: sum.splits if_splits)

lemma refresh_caches:
  assumes "get_token_refresh idp now acct P = (Inr tok, P1)"
  shows "(\<exists>t. p_tokens P1 acct = Some t \<and> token t = tok)
       \<and> p_default_account_id P1 = p_default_account_id P
       \<and> exchanges P1 \<le> Suc (exchanges P)"
  using assms
  by (auto simp add: get_token_refresh_def Let_def exchanges_def case_prod_beta
      split: sum.splits if_splits token_outcome.splits option.splits)

lemma get_token_caches:
  assumes "get_token idp now account P = (Inr tok, P1)"
  shows "(\<exists>t. p_tokens P1 (resolve_account account P) = Some t \<and> token t = tok)
       \<and> resolve_account account P1 = resolve_account account P
       \<and> exchanges P1 \<le> Suc (exchanges P)"
  using assms service_account_caches [of idp now "resolve_account account P" P tok P1]
    refresh_caches [of idp now "resolve_account account P" P tok P1]
  by (auto simp add: get_token_def Let_def resolve_account_def split: if_splits)


text \<open>
  C6. A cached token is valid when its expiry is absent or more than 60 seconds after the
  instant of the call. While the cached token of an account is valid at each instant of a
  sequence of \<open>get_token\<close> calls, every call returns the token of the cache and leaves
  the provider as it was: nothing is posted, refreshed or written. A sequence that starts
  with a call that succeeds, and goes on while the token that call cached is valid, returns
  the same token at every call and makes at most one exchange in all.
\<close>

theorem get_token_cached_within_validity:
  "(is_valid now t
      \<longleftrightarrow> token_expires_at t = None
          \<or> (\<exists>e. token_expires_at t = Some e \<and> e - now > seconds 60))
   \<and> (p_tokens P (resolve_account account P) = Some t \<and> (\<forall>now \<in> set nows. is_valid now t)
      \<longrightarrow> get_token_calls idp account nows P = (replicate (length nows) (Inr (token t)), P))
   \<and> (get_token idp now0 account P = (Inr tok, P1)
        \<and> (\<forall>now \<in> set nows. is_valid now (the (p_tokens P1 (resolve_account account P))))
      \<longrightarrow> get_token_calls idp account (now0 # nows) P
            = (replicate (Suc (length nows)) (Inr tok), P1)
        \<and> exchanges P1 \<le> Suc (exchanges P))"
proof -
  have window: "is_valid now t
      \<longleftrightarrow> token_expires_at t = None
          \<or> (\<exists>e. token_expires_at t = Some e \<and> e - now > seconds 60)"
    by (auto simp add: is_valid_def split: option.splits)
  have warm: "get_token_calls idp account nows P = (replicate (length nows) (Inr (token t)), P)"
    if "p_tokens P (resolve_account account P) = Some t" and "\<forall>now \<in> set nows. is_valid now t"
    using that by (rule get_token_calls_cached)
  have cold: "get_token_calls idp account (now0 # nows) P
                = (replicate (Suc (length nows)) (Inr tok), P1)
              \<and> exchanges P1 \<le> Suc (exchanges P)"
    if first: "get_token idp now0 account P = (Inr tok, P1)"
      and valid: "\<forall>now \<in> set nows. is_valid now (the (p_tokens P1 (resolve_account account P)))"
  proof -
    from get_token_caches [OF first] obtain t' where
      t': "p_tokens P1 (resolve_account account P) = Some t'" "token t' = tok"
      and acct: "resolve_account account P1 = resolve_account account P"
      and count: "exchanges P1 \<le> Suc (exchanges P)"
      by blast
    have "get_token_calls idp account nows P1 = (replicate (length nows) (Inr (token t')), P1)"
      using t' acct valid by (intro get_token_calls_cached) simp_all
    then show ?thesis using first t' count by simp
  qed
  show ?thesis using window warm cold by blast
qed

theorem get_token_cached_within_validity_witness:
  "get_token (respx_token_endpoint ''cached'' 3600) 0 None
       (new_provider (test_settings (Some ''refresh'') None) False Map.empty)
     = (Inr ''cached'',
        (new_provider (test_settings (Some ''refresh'') None) False Map.empty)
          \<lparr>p_tokens := [''default'' \<mapsto> \<lparr>token = ''cached'',
                                          token_expires_at = Some (seconds 3600)\<rparr>],
            p_posted := [\<lparr>tq_url = ''https://oauth2.googleapis.com/token'',
                          tq_client_id = ''client'', tq_client_secret = ''secret'',
                          tq_grant_type = ''refresh_token'', tq_refresh_token = ''refresh'',
                          tq_scope = None\<rparr>]\<rparr>)
   \<and> fst (get_token_calls (respx_token_endpoint ''cached'' 3600) None
            [0, seconds 1, seconds 3539]
            (new_provider (test_settings (Some ''refresh'') None) False Map.empty))
       = [Inr ''cached'', Inr ''cached'', Inr ''cached'']
   \<and> exchanges (snd (get_token_calls (respx_token_endpoint ''cached'' 3600) None
            [0, seconds 1, seconds 3539]
            (new_provider (test_settings (Some ''refresh'') None) False Map.empty))) = 1"
proof -
  let ?idp = "respx_token_endpoint ''cached'' 3600"
  let ?P = "new_provider (test_settings (Some ''refresh'') None) False Map.empty"
  let ?P1 = "?P\<lparr>p_tokens := [''default'' \<mapsto> \<lparr>token = ''cached'',
                                          token_expires_at = Some (seconds 3600)\<rparr>],
            p_posted := [\<lparr>tq_url = ''https://oauth2.googleapis.com/token'',
                          tq_client_id = ''client'', tq_client_secret = ''secret'',
                          tq_grant_type = ''refresh_token'', tq_refresh_token = ''refresh'',
                          tq_scope = None\<rparr>]\<rparr>"
  have first: "get_token ?idp 0 None ?P = (Inr ''cached'', ?P1)"
    by (simp add: get_token_def get_token_refresh_def new_provider_def test_settings_def
        respx_token_endpoint_def resolve_account_def truthy_def stored_access_token_def
        py_or_def Let_def)
  have valid: "\<forall>now \<in> set [seconds 1, seconds 3539].
                 is_valid now (the (p_tokens ?P1 (resolve_account None ?P)))"
    by (simp add: is_valid_def seconds_def resolve_account_def truthy_def new_provider_def
        test_settings_def)
  have count: "exchanges ?P1 = 1"
    by (simp add: exchanges_def new_provider_def)
  from get_token_cached_within_validity
         [where P = ?P and account = None and nows = "[seconds 1, seconds 3539]"
            and idp = ?idp and ?now0.0 = 0 and tok = "''cached''" and ?P1.0 = ?P1]
       first valid
  have "get_token_calls ?idp None [0, seconds 1, seconds 3539] ?P
          = (replicate (Suc (length [seconds 1, seconds 3539])) (Inr ''cached''), ?P1)"
    by blast
  then show ?thesis using first count by (simp add: numeral_2_eq_2)
qed

subsection \<open>Authenticated request pipeline\<close>

lemmas scenario_defs = provider_with_repository_def new_provider_def test_settings_def
  respx_token_endpoint_def new_client_def files_request_def stale_row_def refresh_form_def
  holding_stale_def

lemma first_token:
  "get_token (respx_token_endpoint ''stale'' 3600) 0 (Some ''default'') provider_with_repository
     = (Inr ''stale'', holding_stale)"
  by (simp add: get_token_def get_token_refresh_def scenario_defs resolve_account_def truthy_def
      stored_access_token_def py_or_def upsert_credentials_def get_credentials_def Let_def)

lemma request_unauthorized_once:
  "request (respx_token_endpoint ''stale'' 3600) unauthorized_once 0 ''GET'' ''/files'' []
       None None None [] False (new_client provider_with_repository)
     = (Inr \<lparr>status_code = 200, response_text = ''{}'', json_body = Some (JObj [])\<rparr>,
        \<lparr>c_token_provider = holding_stale\<lparr>p_tokens := Map.empty\<rparr>,
         c_account_id = ''default'',
         c_sent = [files_request ''stale'', files_request ''stale''],
         c_observed = [\<lparr>ob_method = ''GET'', ob_url = ''/files'', ob_status_code = 200,
                        ob_error_type = Some ''unauthorized''\<rparr>]\<rparr>)"
proof -
  have tok: "get_token (respx_token_endpoint ''stale'' 3600) 0
               (Some (c_account_id (new_client provider_with_repository)))
               (c_token_provider (new_client provider_with_repository))
             = (Inr ''stale'', holding_stale)"
    using first_token by (simp add: scenario_defs)
  show ?thesis
    unfolding request_def tok
    by (simp add: async_retrying.simps attempt_def unauthorized_once_def invalidate_def
        resolve_account_def truthy_def dict_update_def scenario_defs Let_def)
qed

lemma attempt_503:
  assumes "always_answers 503 api"
  shows "\<exists>p. attempt api req (C, L) =
           (Inl (DriveRetriableError ''Drive API throttled or server error'' 503 p),
            (C\<lparr>c_sent := c_sent C @ [req]\<rparr>,
             L\<lparr>l_status_code := 503, l_error_type := Some ''retryable''\<rparr>))"
proof -
  from assms obtain r where "api (c_sent C) req = Response r" "status_code r = 503"
    unfolding always_answers_def by blast
  then show ?thesis by (simp add: attempt_def Let_def)
qed

lemma retrying_503:
  assumes "always_answers 503 api" and "a \<le> m"
  shows "\<exists>p. async_retrying m a (attempt api req) (C, L) =
           (Inl (RetryError (DriveRetriableError ''Drive API throttled or server error'' 503 p)),
            (C\<lparr>c_sent := c_sent C @ replicate (Suc (m - a)) req\<rparr>,
             L\<lparr>l_status_code := 503, l_error_type := Some ''retryable''\<rparr>))"
  using assms(2)
proof (induction "m - a" arbitrary: a C L)
  case 0
  then have am: "a = m" by simp
  from attempt_503 [OF assms(1), of req C L] obtain p where
    "attempt api req (C, L) =
           (Inl (DriveRetriableError ''Drive API throttled or server error'' 503 p),
            (C\<lparr>c_sent := c_sent C @ [req]\<rparr>,
             L\<lparr>l_status_code := 503, l_error_type := Some ''retryable''\<rparr>))" by blast
  then show ?case using am
    by (subst async_retrying.simps) simp
next
  case (Suc n)
  then have lt: "a < m" and n: "n = m - Suc a" and le: "Suc a \<le> m" by simp_all
  from attempt_503 [OF assms(1), of req C L] obtain p where
    step: "attempt api req (C, L) =
           (Inl (DriveRetriableError ''Drive API throttled or server error'' 503 p),
            (C\<lparr>c_sent := c_sent C @ [req]\<rparr>,
             L\<lparr>l_status_code := 503, l_error_type := Some ''retryable''\<rparr>))" by blast
  from Suc.hyps(1) [OF n le, of "C\<lparr>c_sent := c_sent C @ [req]\<rparr>"
      "L\<lparr>l_status_code := 503, l_error_type := Some ''retryable''\<rparr>"]
  obtain q where
    rest: "async_retrying m (Suc a) (attempt api req)
             (C\<lparr>c_sent := c_sent C @ [req]\<rparr>,
              L\<lparr>l_status_code := 503, l_error_type := Some ''retryable''\<rparr>) =
           (Inl (RetryError (DriveRetriableError ''Drive API throttled or server error'' 503 q)),
            (C\<lparr>c_sent := c_sent C @ [req] @ replicate (Suc (m - Suc a)) req\<rparr>,
             L\<lparr>l_status_code := 503, l_error_type := Some ''retryable''\<rparr>))"
    by auto
  have "replicate (Suc (m - a)) req = [req] @ replicate (Suc (m - Suc a)) req"
    using lt by (simp add: Suc_diff_Suc)
  then show ?case using step rest lt
    by (subst async_retrying.simps) (simp del: replicate.simps)
qed

lemma request_503:
  assumes "always_answers 503 api"
    and "get_token idp now (Some (c_account_id C)) (c_token_provider C) = (Inr tok, P')"
  shows "\<exists>p C'. request idp api now verb url params js data files headers stream C =
           (Inl (RetryError (DriveRetriableError ''Drive API throttled or server error'' 503 p)), C')
         \<and> length (c_sent C') = length (c_sent C) + 5
         \<and> c_observed C' = c_observed C @
              [\<lparr>ob_method = verb, ob_url = url, ob_status_code = 503,
                ob_error_type = Some ''retryable''\<rparr>]"
proof -
  let ?req = "\<lparr>rq_method = verb, rq_url = url, rq_params = params, rq_json = js,
                      rq_data = data, rq_files = files, rq_headers = dict_update [(''Authorization'', ''Bearer '' @ tok),
                              (''Accept'', ''application/json'')] headers,
                      rq_stream = stream\<rparr>"
  from retrying_503 [OF assms(1), of 1 5 ?req "C\<lparr>c_token_provider := P'\<rparr>"
       "\<lparr>l_status_code = 500, l_error_type = None\<rparr>"]
  obtain p where
    "async_retrying 5 1 (attempt api ?req) (C\<lparr>c_token_provider := P'\<rparr>, \<lparr>l_status_code = 500, l_error_type = None\<rparr>) =
           (Inl (RetryError (DriveRetriableError ''Drive API throttled or server error'' 503 p)),
            (C\<lparr>c_token_provider := P', c_sent := c_sent C @ replicate (Suc (5 - 1)) ?req\<rparr>,
             \<lparr>l_status_code = 503, l_error_type = Some ''retryable''\<rparr>))"
    by auto
  then show ?thesis using assms(2)
    by (simp add: request_def Let_def)
qed

lemma attempt_401:
  assumes "api (c_sent C) req = Response r" and "status_code r = 401"
  shows "attempt api req (C, L) =
           (Inl (DriveRetriableError ''Unauthorized request'' 401 (Some (Text (response_text r)))),
            (C\<lparr>c_sent := c_sent C @ [req],
               c_token_provider := invalidate (Some (c_account_id C)) (c_token_provider C)\<rparr>,
             L\<lparr>l_status_code := 401, l_error_type := Some ''unauthorized''\<rparr>))"
  using assms by (simp add: attempt_def Let_def)

lemma invalidate_drops:
  "p_tokens (invalidate account P) (resolve_account account P) = None"
  by (simp add: invalidate_def Let_def)

lemma get_token_from_store:
  assumes "p_tokens P (resolve_account account P) = None"
    and "\<not> truthy (googledrive_service_account_key_path (p_settings P))"
    and "p_has_repository P"
    and "get_credentials (resolve_account account P) (p_store P) = Some row"
    and "access_token row = Some stale" and "stale \<noteq> []"
    and "expires_at row = Some e" and "now < e - seconds 60"
  shows "get_token idp now account P =
           (Inr stale,
            P\<lparr>p_tokens := (p_tokens P)(resolve_account account P \<mapsto>
                   \<lparr>token = stale, token_expires_at = Some e\<rparr>)\<rparr>)"
proof -
  have "get_token idp now account P = get_token_refresh idp now (resolve_account account P) P"
    using assms(1,2) by (simp add: get_token_def Let_def)
  then show ?thesis
    using assms(3-8)
    by (simp add: get_token_refresh_def stored_access_token_def is_valid_def truthy_def Let_def)
qed

lemma get_token_without_repository_exchanges:
  assumes "p_tokens P (resolve_account account P) = None"
    and "\<not> truthy (googledrive_service_account_key_path (p_settings P))"
    and "\<not> p_has_repository P"
    and "googledrive_refresh_token (p_settings P) = Some rt" and "rt \<noteq> []"
    and "token_endpoint idp (p_posted P) req = TokenResponse resp"
    and "req = \<lparr>tq_url = googledrive_token_url (p_settings P),
                 tq_client_id = googledrive_client_id (p_settings P),
                 tq_client_secret = googledrive_client_secret (p_settings P),
                 tq_grant_type = ''refresh_token'', tq_refresh_token = rt, tq_scope = None\<rparr>"
    and "tr_status_code resp < 400" and "tr_access_token resp = Some fresh"
  shows "fst (get_token idp now account P) = Inr fresh
       \<and> p_posted (snd (get_token idp now account P)) = p_posted P @ [req]"
proof -
  have "get_token idp now account P = get_token_refresh idp now (resolve_account account P) P"
    using assms(1,2) by (simp add: get_token_def Let_def)
  then show ?thesis
    using assms(3-9)
    by (simp add: get_token_refresh_def stored_access_token_def truthy_def Let_def)
qed

text \<open>
  C1. What the code does after a 401: the attempt that receives it drops the cached token
  of the account. When the provider has a repository and the stored credential of the
  account holds an access token whose expiry is more than 60 seconds ahead (the provider
  itself stored it there at the last exchange), the next \<open>get_token\<close> call returns
  that stored token and makes no exchange: nothing is posted to the token endpoint and
  the service-account credentials are not refreshed. Without a repository the next call
  does post a fresh exchange (\<open>get_token_without_repository_exchanges\<close>).
\<close>

theorem get_token_after_401_returns_stored_token:
  assumes "api (c_sent C) req = Response r" and "status_code r = 401"
    and "acct = resolve_account (Some (c_account_id C)) (c_token_provider C)"
    and "\<not> truthy (googledrive_service_account_key_path (p_settings (c_token_provider C)))"
    and "p_has_repository (c_token_provider C)"
    and "get_credentials acct (p_store (c_token_provider C)) = Some row"
    and "access_token row = Some stale" and "stale \<noteq> []"
    and "expires_at row = Some e" and "now < e - seconds 60"
  shows "p_tokens (c_token_provider (fst (snd (attempt api req (C, L))))) acct = None
       \<and> fst (get_token idp now (Some (c_account_id C))
                (c_token_provider (fst (snd (attempt api req (C, L)))))) = Inr stale
       \<and> p_posted (snd (get_token idp now (Some (c_account_id C))
                (c_token_provider (fst (snd (attempt api req (C, L)))))))
           = p_posted (c_token_provider C)
       \<and> p_refreshes (snd (get_token idp now (Some (c_account_id C))
                (c_token_provider (fst (snd (attempt api req (C, L)))))))
           = p_refreshes (c_token_provider C)"
proof -
  let ?P = "c_token_provider C"
  let ?I = "invalidate (Some (c_account_id C)) ?P"
  have after: "c_token_provider (fst (snd (attempt api req (C, L)))) = ?I"
    using attempt_401 [of api C req r L] assms(1,2) by simp
  have same: "resolve_account (Some (c_account_id C)) ?I = acct"
    "p_settings ?I = p_settings ?P" "p_has_repository ?I = p_has_repository ?P"
    "p_store ?I = p_store ?P" "p_posted ?I = p_posted ?P" "p_refreshes ?I = p_refreshes ?P"
    using assms(3) by (simp_all add: invalidate_def resolve_account_def Let_def)
  have dropped: "p_tokens ?I acct = None"
    using invalidate_drops [of "Some (c_account_id C)" ?P] assms(3) by simp
  have "get_token idp now (Some (c_account_id C)) ?I =
          (Inr stale, ?I\<lparr>p_tokens := (p_tokens ?I)(acct \<mapsto>
                   \<lparr>token = stale, token_expires_at = Some e\<rparr>)\<rparr>)"
    using get_token_from_store [of ?I "Some (c_account_id C)" row stale e now idp]
      same dropped assms by simp
  then show ?thesis using after dropped same by simp
qed

theorem get_token_after_401_returns_stored_token_witness:
  "unauthorized_once (c_sent ((new_client provider_with_repository)\<lparr>c_token_provider := holding_stale\<rparr>))
       (files_request ''stale'')
     = Response \<lparr>status_code = 401, response_text = ''unauthorized'', json_body = None\<rparr>
   \<and> p_has_repository holding_stale
   \<and> get_credentials ''default'' (p_store holding_stale) = Some stale_row
   \<and> access_token stale_row = Some ''stale''
   \<and> expires_at stale_row = Some (seconds 3600)
   \<and> seconds 10 < seconds 3600 - seconds 60
   \<and> p_tokens (c_token_provider (fst (snd (attempt unauthorized_once (files_request ''stale'')
          ((new_client provider_with_repository)\<lparr>c_token_provider := holding_stale\<rparr>,
           \<lparr>l_status_code = 500, l_error_type = None\<rparr>))))) ''default'' = None
   \<and> fst (get_token (respx_token_endpoint ''fresh'' 3600) (seconds 10) (Some ''default'')
          (c_token_provider (fst (snd (attempt unauthorized_once (files_request ''stale'')
             ((new_client provider_with_repository)\<lparr>c_token_provider := holding_stale\<rparr>,
              \<lparr>l_status_code = 500, l_error_type = None\<rparr>)))))) = Inr ''stale''
   \<and> p_posted (snd (get_token (respx_token_endpoint ''fresh'' 3600) (seconds 10) (Some ''default'')
          (c_token_provider (fst (snd (attempt unauthorized_once (files_request ''stale'')
             ((new_client provider_with_repository)\<lparr>c_token_provider := holding_stale\<rparr>,
              \<lparr>l_status_code = 500, l_error_type = None\<rparr>))))))) = [refresh_form]
   \<and> fst (get_token (respx_token_endpoint ''fresh'' 3600) (seconds 10) (Some ''default'')
          (c_token_provider (snd (request (respx_token_endpoint ''stale'' 3600)
             unauthorized_once 0 ''GET'' ''/files'' [] None None None [] False
             (new_client provider_with_repository))))) = Inr ''stale''"
proof -
  let ?C = "(new_client provider_with_repository)\<lparr>c_token_provider := holding_stale\<rparr>"
  let ?L = "\<lparr>l_status_code = 500, l_error_type = None\<rparr>"
  let ?r = "\<lparr>status_code = 401, response_text = ''unauthorized'', json_body = None\<rparr>"
  have h1: "unauthorized_once (c_sent ?C) (files_request ''stale'') = Response ?r"
    by (simp add: unauthorized_once_def scenario_defs)
  have h2: "status_code ?r = 401" by simp
  have h3: "''default'' = resolve_account (Some (c_account_id ?C)) (c_token_provider ?C)"
    by (simp add: resolve_account_def truthy_def scenario_defs)
  have h4: "\<not> truthy (googledrive_service_account_key_path (p_settings (c_token_provider ?C)))"
    by (simp add: truthy_def scenario_defs)
  have h5: "p_has_repository (c_token_provider ?C)" by (simp add: scenario_defs)
  have h6: "get_credentials ''default'' (p_store (c_token_provider ?C)) = Some stale_row"
    by (simp add: get_credentials_def holding_stale_def)
  have h7: "access_token stale_row = Some ''stale''" by (simp add: stale_row_def)
  have h8: "''stale'' \<noteq> []" by simp
  have h9: "expires_at stale_row = Some (seconds 3600)" by (simp add: stale_row_def)
  have h10: "seconds 10 < seconds 3600 - seconds 60" by (simp add: seconds_def)
  have acct: "c_account_id ?C = ''default''" by (simp add: scenario_defs)
  have posted: "p_posted (c_token_provider ?C) = [refresh_form]"
    by (simp add: holding_stale_def)
  note T = get_token_after_401_returns_stored_token
             [where api = unauthorized_once and C = ?C and req = "files_request ''stale''"
                and r = ?r and acct = "''default''" and row = stale_row
                and stale = "''stale''" and e = "seconds 3600" and now = "seconds 10"
                and L = ?L and idp = "respx_token_endpoint ''fresh'' 3600",
              OF h1 h2 h3 h4 h5 h6 h7 h8 h9 h10]
  have att: "c_token_provider (fst (snd (attempt unauthorized_once (files_request ''stale'')
               (?C, ?L))))
             = invalidate (Some ''default'') holding_stale"
    using attempt_401 [where api = unauthorized_once and C = ?C
        and req = "files_request ''stale''" and r = ?r and L = ?L] h1
    by (simp add: acct)
  have inv: "invalidate (Some ''default'') holding_stale = holding_stale\<lparr>p_tokens := Map.empty\<rparr>"
    by (simp add: invalidate_def resolve_account_def truthy_def holding_stale_def Let_def)
  have through: "c_token_provider (snd (request (respx_token_endpoint ''stale'' 3600)
             unauthorized_once 0 ''GET'' ''/files'' [] None None None [] False
             (new_client provider_with_repository)))
           = c_token_provider (fst (snd (attempt unauthorized_once (files_request ''stale'')
               (?C, ?L))))"
    by (simp add: request_unauthorized_once att inv)
  show ?thesis
    unfolding through
    using T h1 h5 h6 h7 h9 h10 acct posted by simp
qed

text \<open>
  C2. What the code does against a server that answers 503 to every request: once the
  token is read, the request is sent 5 times, and the call raises tenacity's
  \<open>RetryError\<close> wrapping the retriable error of the last attempt, with status 503.
  The exception raised is no \<open>DriveAPIError\<close> and has no status code of its own.
\<close>

theorem request_exhausts_on_503:
  assumes "\<forall>sent req. \<exists>r. api sent req = Response r \<and> status_code r = 503"
    and "get_token idp now (Some (c_account_id C)) (c_token_provider C) = (Inr tok, P')"
  shows "\<exists>p C'. request idp api now verb url params js data files headers stream C =
           (Inl (RetryError (DriveRetriableError ''Drive API throttled or server error'' 503 p)), C')
         \<and> length (c_sent C') = length (c_sent C) + 5
         \<and> \<not> is_DriveAPIError
               (RetryError (DriveRetriableError ''Drive API throttled or server error'' 503 p))
         \<and> status_code_of
               (RetryError (DriveRetriableError ''Drive API throttled or server error'' 503 p))
             = None"
proof -
  have "always_answers 503 api" using assms(1) by (simp add: always_answers_def)
  from request_503 [OF this assms(2), of verb url params js data files headers stream]
  show ?thesis by auto
qed

theorem request_exhausts_on_503_witness:
  "fst (request (respx_token_endpoint ''token'' 3600) always_503 0 ''GET'' ''/files'' []
          None None None [] False
          (new_client (new_provider (test_settings (Some ''refresh'') None) False Map.empty)))
     = Inl (RetryError (DriveRetriableError ''Drive API throttled or server error'' 503
                          (Some (Text ''unavailable''))))
   \<and> c_sent (snd (request (respx_token_endpoint ''token'' 3600) always_503 0 ''GET'' ''/files'' []
          None None None [] False
          (new_client (new_provider (test_settings (Some ''refresh'') None) False Map.empty))))
     = replicate 5 (files_request ''token'')"
proof -
  let ?idp = "respx_token_endpoint ''token'' 3600"
  let ?C = "new_client (new_provider (test_settings (Some ''refresh'') None) False Map.empty)"
  let ?P' = "(new_provider (test_settings (Some ''refresh'') None) False Map.empty)
          \<lparr>p_tokens := [''default'' \<mapsto> \<lparr>token = ''token'',
                                          token_expires_at = Some (seconds 3600)\<rparr>],
            p_posted := [refresh_form]\<rparr>"
  have h1: "\<forall>sent req. \<exists>r. always_503 sent req = Response r \<and> status_code r = 503"
    by (simp add: always_503_def)
  have h2: "get_token ?idp 0 (Some (c_account_id ?C)) (c_token_provider ?C) = (Inr ''token'', ?P')"
    by (simp add: get_token_def get_token_refresh_def scenario_defs resolve_account_def
        truthy_def stored_access_token_def py_or_def Let_def)
  from request_exhausts_on_503 [OF h1 h2, of "''GET''" "''/files''" "[]" None None None "[]" False]
  obtain p C' where
    shape: "request ?idp always_503 0 ''GET'' ''/files'' [] None None None [] False ?C =
           (Inl (RetryError (DriveRetriableError ''Drive API throttled or server error'' 503 p)), C')"
    by blast
  have eval: "request ?idp always_503 0 ''GET'' ''/files'' [] None None None [] False ?C =
      (Inl (RetryError (DriveRetriableError ''Drive API throttled or server error'' 503
                          (Some (Text ''unavailable'')))),
       ?C\<lparr>c_token_provider := ?P',
           c_sent := replicate 5 (files_request ''token''),
           c_observed := [\<lparr>ob_method = ''GET'', ob_url = ''/files'', ob_status_code = 503,
                        ob_error_type = Some ''retryable''\<rparr>]\<rparr>)"
    unfolding request_def h2
    by (simp add: async_retrying.simps attempt_def always_503_def dict_update_def
        truthy_def scenario_defs Let_def numeral_eq_Suc)
  show ?thesis using shape by (auto simp add: eval)
qed

subsection \<open>Watch channel manager\<close>

lemma find_distinct:
  "distinct (map channel_id xs) \<Longrightarrow> r \<in> set xs
   \<Longrightarrow> find (\<lambda>x. channel_id x = channel_id r) xs = Some r"
  by (induction xs) (auto simp add: rev_image_eqI)

lemma py_or_same: "py_or a a = a"
  by (simp add: py_or_def)

lemma delete_watch_ok:
  assumes "delete_watch client cid rid st = (Inr u, st1)"
  shows "ws_channels st1 =
           (case get_channel cid st of
              Some r \<Rightarrow> remove1 r (ws_channels st)
            | None \<Rightarrow> ws_channels st)
       \<and> ws_draws st1 = ws_draws st
       \<and> stop_channel client cid
            (py_or rid (case get_channel cid st of Some r \<Rightarrow> resource_id r | None \<Rightarrow> None))
            (ws_client st) = (Inr u, ws_client st1)"
  using assms
  by (auto simp add: delete_watch_def Let_def split: prod.splits sum.splits option.splits)

lemma delete_watch_failed:
  assumes "delete_watch client cid rid st = (Inl e, st1)"
  shows "ws_channels st1 = ws_channels st \<and> ws_draws st1 = ws_draws st
       \<and> fst (stop_channel client cid
                 (py_or rid (case get_channel cid st of Some r \<Rightarrow> resource_id r | None \<Rightarrow> None))
                 (ws_client st)) = Inl e"
  using assms
  by (auto simp add: delete_watch_def Let_def split: prod.splits sum.splits option.splits)

lemma register_ok:
  assumes "register_changes_watch S client token_hex db ttl st = (Inr row, st2)"
  shows "\<exists>start_token c2 answer.
           get_start_page_token client (ws_client st) = (Inr start_token, c2)
         \<and> start_changes_watch client start_token
              \<lparr>wb_id = token_hex (ws_draws st) 16, wb_type = ''web_hook'',
               wb_address = the (connector_webhook_url S),
               wb_token = token_hex (Suc (ws_draws st)) 12, wb_ttl = ttl\<rparr> c2
             = (Inr answer, ws_client st2)
         \<and> row = \<lparr>channel_id = token_hex (ws_draws st) 16,
                   resource_id = wr_resourceId answer,
                   resource_uri = wr_resourceUri answer,
                   expiration =
                     (case wr_expiration answer of
                        None \<Rightarrow> None
                      | Some ms \<Rightarrow> if ms = 0 then None else Some (refreshed db (ms * 1000))),
                   channel_token = Some (token_hex (Suc (ws_draws st)) 12),
                   channel_account_id = googledrive_default_account_id S,
                   kind = ''changes''\<rparr>
         \<and> ws_channels st2 = ws_channels st @ [row]
         \<and> channel_id row \<notin> set (map channel_id (ws_channels st))
         \<and> ws_draws st2 = Suc (Suc (ws_draws st))"
  using assms
  by (auto simp add: register_changes_watch_def Let_def
      split: prod.splits sum.splits option.splits if_splits)

lemma register_failed:
  assumes "register_changes_watch S client token_hex db ttl st = (Inl e, st2)"
  shows "ws_channels st2 = ws_channels st"
  using assms
  by (auto simp add: register_changes_watch_def Let_def
      split: prod.splits sum.splits option.splits if_splits)

lemma register_sqlite_naive:
  assumes "register_changes_watch S client token_hex Sqlite ttl st = (Inr row, st2)"
  shows "expiration row = None \<or> (\<exists>t. expiration row = Some (Naive t))"
proof -
  from register_ok [OF assms] obtain answer :: watch_response and rid uri secret where
    "row = \<lparr>channel_id = token_hex (ws_draws st) 16, resource_id = rid, resource_uri = uri,
             expiration =
               (case wr_expiration answer of
                  None \<Rightarrow> None
                | Some ms \<Rightarrow> if ms = 0 then None else Some (refreshed Sqlite (ms * 1000))),
             channel_token = secret,
             channel_account_id = googledrive_default_account_id S,
             kind = ''changes''\<rparr>"
    by blast
  then show ?thesis
    by (cases "wr_expiration answer") (simp_all add: refreshed_def)
qed

lemma distinct_ids_remove1:
  "distinct (map channel_id xs) \<Longrightarrow> distinct (map channel_id (remove1 x xs))"
  by (auto simp add: distinct_map intro: inj_on_diff)

lemma found_due_iff:
  "found_due now threshold r \<longleftrightarrow> (\<exists>t. expiration r = Some (Aware t) \<and> t - now \<le> threshold)"
  by (auto simp add: found_due_def needs_renewal_def split: option.splits pydatetime.splits)

lemma renew_loop_step:
  "renew_loop S client token_hex db now threshold ttl (channel # rest) renewed st =
     (case needs_renewal now threshold channel of
        Inl e \<Rightarrow> (Inl e, st)
      | Inr due \<Rightarrow>
          if \<not> due then renew_loop S client token_hex db now threshold ttl rest renewed st
          else
            (case delete_watch client (channel_id channel) (resource_id channel) st of
               (Inl e, st') \<Rightarrow> (Inl e, st')
             | (Inr u, st') \<Rightarrow>
                 (case register_changes_watch S client token_hex db ttl st' of
                    (Inl e, st'') \<Rightarrow> (Inl e, st'')
                  | (Inr new_channel, st'') \<Rightarrow>
                      renew_loop S client token_hex db now threshold ttl rest
                        (renewed @ [channel_id new_channel]) st'')))"
  by simp

lemma renew_loop_ok:
  assumes "distinct (map channel_id (ws_channels st))"
    and "set rest \<subseteq> set (ws_channels st)" and "distinct rest"
    and "renew_loop S client token_hex db now threshold ttl rest renewed st = (Inr ids, st')"
  shows "\<exists>new. ws_channels st' =
            filter (\<lambda>r. r \<notin> set (filter (found_due now threshold) rest)) (ws_channels st)
              @ new
       \<and> ids = renewed @ map channel_id new
       \<and> distinct (map channel_id (ws_channels st'))
       \<and> spec_renewals S client token_hex db ttl (filter (found_due now threshold) rest)
            (ws_draws st) (ws_client st) = Some (new, ws_draws st', ws_client st')
       \<and> (\<forall>r \<in> set rest. needs_renewal now threshold r = Inr (found_due now threshold r))"
  using assms
proof (induction rest arbitrary: renewed st)
  case Nil
  then show ?case by simp
next
  case (Cons channel rest)
  let ?due = "found_due now threshold"
  from Cons.prems(4) obtain due where
    cmp: "needs_renewal now threshold channel = Inr due"
    by (cases "needs_renewal now threshold channel") simp_all
  then have due_eq: "due = ?due channel" by (simp add: found_due_def)
  show ?case
  proof (cases "?due channel")
    case False
    then have "renew_loop S client token_hex db now threshold ttl rest renewed st = (Inr ids, st')"
      using Cons.prems(4) cmp due_eq by simp
    from Cons.IH [OF Cons.prems(1) _ _ this] Cons.prems(2,3) False cmp due_eq
    show ?thesis by simp
  next
    case True
    have step: "renew_loop S client token_hex db now threshold ttl (channel # rest) renewed st =
            (case delete_watch client (channel_id channel) (resource_id channel) st of
               (Inl e, st') \<Rightarrow> (Inl e, st')
             | (Inr u, st') \<Rightarrow>
                 (case register_changes_watch S client token_hex db ttl st' of
                    (Inl e, st'') \<Rightarrow> (Inl e, st'')
                  | (Inr new_channel, st'') \<Rightarrow>
                      renew_loop S client token_hex db now threshold ttl rest
                        (renewed @ [channel_id new_channel]) st''))"
      using cmp due_eq True by simp
    from Cons.prems(4) step obtain u st1 where
      del: "delete_watch client (channel_id channel) (resource_id channel) st = (Inr u, st1)"
      by (auto split: prod.splits sum.splits)
    from Cons.prems(4) step del obtain newc st2 where
      reg: "register_changes_watch S client token_hex db ttl st1 = (Inr newc, st2)"
      by (auto split: prod.splits sum.splits)
    from Cons.prems(4) step del reg have
      loop: "renew_loop S client token_hex db now threshold ttl rest
               (renewed @ [channel_id newc]) st2 = (Inr ids, st')"
      by simp
    let ?chans = "ws_channels st"
    have mem: "channel \<in> set ?chans" using Cons.prems(2) by simp
    have dist: "distinct ?chans" using Cons.prems(1) by (simp add: distinct_map)
    have found: "get_channel (channel_id channel) st = Some channel"
      using find_distinct [OF Cons.prems(1) mem] by (simp add: get_channel_def)
    have c1: "ws_channels st1 = remove1 channel ?chans"
      and n1: "ws_draws st1 = ws_draws st"
      and stop: "stop_channel client (channel_id channel) (resource_id channel) (ws_client st)
                   = (Inr u, ws_client st1)"
      using delete_watch_ok [OF del] found by (simp_all add: py_or_same)
    from register_ok [OF reg] obtain start_token c2 answer where
      tok: "get_start_page_token client (ws_client st1) = (Inr start_token, c2)"
      and watch: "start_changes_watch client start_token
              \<lparr>wb_id = token_hex (ws_draws st1) 16, wb_type = ''web_hook'',
               wb_address = the (connector_webhook_url S),
               wb_token = token_hex (Suc (ws_draws st1)) 12, wb_ttl = ttl\<rparr> c2
             = (Inr answer, ws_client st2)"
      and row: "newc = \<lparr>channel_id = token_hex (ws_draws st1) 16,
                   resource_id = wr_resourceId answer,
                   resource_uri = wr_resourceUri answer,
                   expiration =
                     (case wr_expiration answer of
                        None \<Rightarrow> None
                      | Some ms \<Rightarrow> if ms = 0 then None else Some (refreshed db (ms * 1000))),
                   channel_token = Some (token_hex (Suc (ws_draws st1)) 12),
                   channel_account_id = googledrive_default_account_id S,
                   kind = ''changes''\<rparr>"
      and c2': "ws_channels st2 = ws_channels st1 @ [newc]"
      and fresh': "channel_id newc \<notin> set (map channel_id (ws_channels st1))"
      and n2: "ws_draws st2 = Suc (Suc (ws_draws st1))"
      by blast
    have c2: "ws_channels st2 = remove1 channel ?chans @ [newc]"
      using c2' c1 by simp
    have fresh: "channel_id newc \<notin> set (map channel_id (remove1 channel ?chans))"
      using fresh' c1 by simp
    have d2: "distinct (map channel_id (ws_channels st2))"
      using distinct_ids_remove1 [OF Cons.prems(1), of channel] fresh c2 by simp
    have notin: "channel \<notin> set rest" using Cons.prems(3) by simp
    have sub2: "set rest \<subseteq> set (ws_channels st2)"
      using Cons.prems(2) notin dist c2 by auto
    have drest: "distinct rest" using Cons.prems(3) by simp
    from Cons.IH [OF d2 sub2 drest loop] obtain new' where
      fin: "ws_channels st' =
              filter (\<lambda>r. r \<notin> set (filter ?due rest)) (ws_channels st2) @ new'"
      and ids: "ids = (renewed @ [channel_id newc]) @ map channel_id new'"
      and dfin: "distinct (map channel_id (ws_channels st'))"
      and spec: "spec_renewals S client token_hex db ttl (filter ?due rest)
                   (ws_draws st2) (ws_client st2) = Some (new', ws_draws st', ws_client st')"
      and cmps: "\<forall>r \<in> set rest. needs_renewal now threshold r = Inr (?due r)"
      by blast
    have newc_notin: "newc \<notin> set rest"
    proof
      assume "newc \<in> set rest"
      then have "newc \<in> set (remove1 channel ?chans)"
        using Cons.prems(2) notin dist by auto
      then show False using fresh by simp
    qed
    have rem: "remove1 channel ?chans = filter (\<lambda>r. r \<noteq> channel) ?chans"
      using dist
      by (simp add: distinct_remove1_removeAll removeAll_filter_not_eq) (metis (full_types))
    have "filter (\<lambda>r. r \<notin> set (filter ?due rest)) (ws_channels st2)
            = filter (\<lambda>r. r \<notin> set (filter ?due (channel # rest))) ?chans @ [newc]"
      using newc_notin True by (simp add: c2 rem)
    with fin have a: "ws_channels st' =
        filter (\<lambda>r. r \<notin> set (filter ?due (channel # rest))) ?chans @ (newc # new')"
      by simp
    have b: "ids = renewed @ map channel_id (newc # new')" using ids by simp
    have c: "spec_renewals S client token_hex db ttl (filter ?due (channel # rest))
               (ws_draws st) (ws_client st) = Some (newc # new', ws_draws st', ws_client st')"
      using True stop tok watch spec row n1 n2 by simp
    have d: "\<forall>r \<in> set (channel # rest). needs_renewal now threshold r = Inr (?due r)"
      using cmps cmp due_eq by simp
    from a b dfin c d show ?thesis by (intro exI [of _ "newc # new'"] conjI)
  qed
qed

lemma renew_loop_append:
  "renew_loop S client token_hex db now threshold ttl (xs @ ys) renewed st =
     (case renew_loop S client token_hex db now threshold ttl xs renewed st of
        (Inl e, st') \<Rightarrow> (Inl e, st')
      | (Inr ids, st') \<Rightarrow> renew_loop S client token_hex db now threshold ttl ys ids st')"
  by (induction xs arbitrary: renewed st) (auto split: prod.splits sum.splits)


lemmas watch_defs = renew_channels_def list_channels_def needs_renewal_def delete_watch_def
  get_channel_def register_changes_watch_def StubClient_def draws_from_def test_settings_def
  truthy_def py_or_def seconds_def example_channel_def three_channels_def example_draws_def
  renewed_channel_def example_body_def after_first_renewal_def refreshed_def
  naive_channel_def three_naive_channels_def no_channels_def just_registered_def
  naive_subtraction_def Let_def

lemma renew_example:
  "renew_channels (test_settings (Some ''refresh'') None) (StubClient 122400000 [])
     example_draws Sqlite (seconds 36000) (seconds 3600) 86400 three_channels
   = (Inr [''new-1'', ''new-2''],
      \<lparr>ws_channels = [example_channel ''chan-3'' ''res-3'' (seconds 72000),
                      renewed_channel ''new-1'' ''secret-1'',
                      renewed_channel ''new-2'' ''secret-2''],
       ws_draws = Suc (Suc (Suc (Suc 0))),
       ws_client = [StopChannel ''chan-1'' (Some ''res-1''), GetStartPageToken,
                    StartChangesWatch ''token-1'' (example_body ''new-1'' ''secret-1''),
                    StopChannel ''chan-2'' (Some ''res-2''), GetStartPageToken,
                    StartChangesWatch ''token-1'' (example_body ''new-2'' ''secret-2'')]\<rparr>)"
  by (simp add: watch_defs)

lemma renew_example_refused:
  "renew_channels (test_settings (Some ''refresh'') None) (StubClient 122400000 [''chan-2''])
     example_draws Sqlite (seconds 36000) (seconds 3600) 86400 three_channels
   = (Inl (DriveAPIError ''Drive API returned error'' 404 None),
      after_first_renewal
        \<lparr>ws_client := ws_client after_first_renewal @ [StopChannel ''chan-2'' (Some ''res-2'')]\<rparr>)"
  by (simp add: watch_defs)

lemma register_example:
  "register_changes_watch (test_settings (Some ''refresh'') None) (StubClient 122400000 [])
     example_draws Sqlite 86400 no_channels
   = (Inr (renewed_channel ''new-1'' ''secret-1''), just_registered)"
  by (simp add: watch_defs)

lemma renew_loop_naive:
  assumes "expiration channel = Some (Naive t)"
  shows "renew_loop S client token_hex db now threshold ttl (channel # post) ids st1
           = (Inl naive_subtraction, st1)"
  using assms by (simp add: needs_renewal_def naive_subtraction_def)

lemma spec_renewals_length:
  "spec_renewals S client token_hex db ttl chs n c = Some (rows, n', c')
   \<Longrightarrow> length rows = length chs"
  by (induction chs arbitrary: n c rows)
     (auto split: prod.splits sum.splits option.splits)

text \<open>
  C8. What the code does. A channel is found due exactly when its expiration is aware and
  at most \<open>threshold\<close> after \<open>now\<close> (so also when it is past); a channel without
  expiration never is. When \<open>renew_channels\<close> returns, on a table with distinct
  channel identifiers, the table holds the channels not found due, unchanged and in their
  order, followed by the new rows, the result lists the identifiers of the new rows, and
  the calls made to Drive and the new rows are those of \<open>spec_renewals\<close> for the
  channels found due, in their order: each is stopped and registered again, and no other
  call is made. When the scan reaches a channel whose expiration is naive, the call raises
  \<open>TypeError\<close> there, and neither that channel nor a later one is renewed. On SQLite
  every row that \<open>register_changes_watch\<close> gives back has no expiration or a naive
  one, so there the renewal of a channel registered by the service raises instead of
  renewing it.
\<close>

theorem renew_channels_selection_and_naive_rows:
  "(distinct (map channel_id (ws_channels st))
      \<and> renew_channels S client token_hex db now threshold ttl st = (Inr ids, st')
     \<longrightarrow> (\<exists>new. ws_channels st' =
               filter (\<lambda>r. \<not> found_due now threshold r) (ws_channels st) @ new
             \<and> map channel_id new = ids
             \<and> spec_renewals S client token_hex db ttl
                  (filter (found_due now threshold) (ws_channels st))
                  (ws_draws st) (ws_client st)
                = Some (new, ws_draws st', ws_client st'))
        \<and> (\<forall>r \<in> set (ws_channels st). expiration r = None \<longrightarrow> r \<in> set (ws_channels st')))
   \<and> (found_due now threshold r
        \<longleftrightarrow> (\<exists>t. expiration r = Some (Aware t) \<and> t - now \<le> threshold))
   \<and> (ws_channels st = pre @ channel # post
        \<and> renew_loop S client token_hex db now threshold ttl pre [] st = (Inr ids1, st1)
        \<and> expiration channel = Some (Naive t)
      \<longrightarrow> renew_channels S client token_hex db now threshold ttl st
            = (Inl naive_subtraction, st1))
   \<and> (register_changes_watch S client token_hex Sqlite ttl st = (Inr row, st2)
      \<longrightarrow> expiration row = None \<or> (\<exists>t. expiration row = Some (Naive t)))"
proof -
  let ?due = "found_due now threshold"
  have selection:
    "(\<exists>new. ws_channels st' = filter (\<lambda>r. \<not> ?due r) (ws_channels st) @ new
           \<and> map channel_id new = ids
           \<and> spec_renewals S client token_hex db ttl (filter ?due (ws_channels st))
                (ws_draws st) (ws_client st)
              = Some (new, ws_draws st', ws_client st'))
     \<and> (\<forall>r \<in> set (ws_channels st). expiration r = None \<longrightarrow> r \<in> set (ws_channels st'))"
    if d: "distinct (map channel_id (ws_channels st))"
      and ok: "renew_channels S client token_hex db now threshold ttl st = (Inr ids, st')"
  proof -
    have dist: "distinct (ws_channels st)" using d by (simp add: distinct_map)
    have loop: "renew_loop S client token_hex db now threshold ttl (ws_channels st) [] st
                  = (Inr ids, st')"
      using ok by (simp add: renew_channels_def list_channels_def)
    from renew_loop_ok [OF d subset_refl dist loop] obtain new where
      fin: "ws_channels st' =
              filter (\<lambda>r. r \<notin> set (filter ?due (ws_channels st))) (ws_channels st) @ new"
      and ids: "ids = [] @ map channel_id new"
      and spec: "spec_renewals S client token_hex db ttl (filter ?due (ws_channels st))
                   (ws_draws st) (ws_client st) = Some (new, ws_draws st', ws_client st')"
      by blast
    have "filter (\<lambda>r. r \<notin> set (filter ?due (ws_channels st))) (ws_channels st)
            = filter (\<lambda>r. \<not> ?due r) (ws_channels st)"
      by (rule filter_cong) auto
    with fin have fin': "ws_channels st' = filter (\<lambda>r. \<not> ?due r) (ws_channels st) @ new"
      by simp
    have kept: "\<forall>r \<in> set (ws_channels st). expiration r = None \<longrightarrow> r \<in> set (ws_channels st')"
      using fin' by (auto simp add: found_due_def needs_renewal_def)
    have "\<exists>new. ws_channels st' = filter (\<lambda>r. \<not> ?due r) (ws_channels st) @ new
           \<and> map channel_id new = ids
           \<and> spec_renewals S client token_hex db ttl (filter ?due (ws_channels st))
                (ws_draws st) (ws_client st)
              = Some (new, ws_draws st', ws_client st')"
      using fin' ids spec by (intro exI [of _ new]) simp
    with kept show ?thesis by (intro conjI)
  qed
  have naive: "renew_channels S client token_hex db now threshold ttl st
                 = (Inl naive_subtraction, st1)"
    if "ws_channels st = pre @ channel # post"
      and "renew_loop S client token_hex db now threshold ttl pre [] st = (Inr ids1, st1)"
      and "expiration channel = Some (Naive t)"
    using that renew_loop_naive [of channel t S client token_hex db now threshold ttl post ids1 st1]
    by (simp add: renew_channels_def list_channels_def renew_loop_append)
  have sqlite: "expiration row = None \<or> (\<exists>t. expiration row = Some (Naive t))"
    if "register_changes_watch S client token_hex Sqlite ttl st = (Inr row, st2)"
    using that by (rule register_sqlite_naive)
  from selection found_due_iff [of now threshold r] naive sqlite
  show ?thesis by (intro conjI impI) blast+
qed

theorem renew_channels_selection_and_naive_rows_witness:
  "register_changes_watch (test_settings (Some ''refresh'') None) (StubClient 122400000 [])
       example_draws Sqlite 86400 no_channels
     = (Inr (renewed_channel ''new-1'' ''secret-1''), just_registered)
   \<and> expiration (renewed_channel ''new-1'' ''secret-1'') = Some (Naive (seconds 122400))
   \<and> renew_channels (test_settings (Some ''refresh'') None) (StubClient 122400000 [])
       example_draws Sqlite (seconds 122400) (seconds 3600) 86400 just_registered
     = (Inl naive_subtraction, just_registered)
   \<and> renew_channels (test_settings (Some ''refresh'') None) (StubClient 122400000 [])
       example_draws Sqlite (seconds 36000) (seconds 3600) 86400 three_naive_channels
     = (Inl naive_subtraction, three_naive_channels)
   \<and> distinct (map channel_id (ws_channels three_channels))
   \<and> renew_channels (test_settings (Some ''refresh'') None) (StubClient 122400000 [])
       example_draws Sqlite (seconds 36000) (seconds 3600) 86400 three_channels
     = (Inr [''new-1'', ''new-2''],
        \<lparr>ws_channels = [example_channel ''chan-3'' ''res-3'' (seconds 72000),
                        renewed_channel ''new-1'' ''secret-1'',
                        renewed_channel ''new-2'' ''secret-2''],
         ws_draws = Suc (Suc (Suc (Suc 0))),
         ws_client = [StopChannel ''chan-1'' (Some ''res-1''), GetStartPageToken,
                      StartChangesWatch ''token-1'' (example_body ''new-1'' ''secret-1''),
                      StopChannel ''chan-2'' (Some ''res-2''), GetStartPageToken,
                      StartChangesWatch ''token-1'' (example_body ''new-2'' ''secret-2'')]\<rparr>)
   \<and> spec_renewals (test_settings (Some ''refresh'') None) (StubClient 122400000 [])
       example_draws Sqlite 86400
       [example_channel ''chan-1'' ''res-1'' (seconds 32400),
        example_channel ''chan-2'' ''res-2'' (seconds 37800)] 0 []
     = Some ([renewed_channel ''new-1'' ''secret-1'', renewed_channel ''new-2'' ''secret-2''],
             Suc (Suc (Suc (Suc 0))),
             [StopChannel ''chan-1'' (Some ''res-1''), GetStartPageToken,
              StartChangesWatch ''token-1'' (example_body ''new-1'' ''secret-1''),
              StopChannel ''chan-2'' (Some ''res-2''), GetStartPageToken,
              StartChangesWatch ''token-1'' (example_body ''new-2'' ''secret-2'')])
   \<and> found_due (seconds 36000) (seconds 3600)
         (example_channel ''chan-1'' ''res-1'' (seconds 36000 - seconds 3600))
   \<and> found_due (seconds 36000) (seconds 3600)
         (example_channel ''chan-2'' ''res-2'' (seconds 36000 + seconds 1800))
   \<and> \<not> found_due (seconds 36000) (seconds 3600)
         (example_channel ''chan-3'' ''res-3'' (seconds 36000 + seconds 36000))"
proof -
  let ?S = "test_settings (Some ''refresh'') None"
  let ?client = "StubClient 122400000 []"
  note T = renew_channels_selection_and_naive_rows
  have spec: "spec_renewals ?S ?client example_draws Sqlite 86400
       [example_channel ''chan-1'' ''res-1'' (seconds 32400),
        example_channel ''chan-2'' ''res-2'' (seconds 37800)] 0 []
     = Some ([renewed_channel ''new-1'' ''secret-1'', renewed_channel ''new-2'' ''secret-2''],
             Suc (Suc (Suc (Suc 0))),
             [StopChannel ''chan-1'' (Some ''res-1''), GetStartPageToken,
              StartChangesWatch ''token-1'' (example_body ''new-1'' ''secret-1''),
              StopChannel ''chan-2'' (Some ''res-2''), GetStartPageToken,
              StartChangesWatch ''token-1'' (example_body ''new-2'' ''secret-2'')])"
    by (simp add: watch_defs)
  have reg: "register_changes_watch ?S ?client example_draws Sqlite 86400 no_channels
               = (Inr (renewed_channel ''new-1'' ''secret-1''), just_registered)"
    by (rule register_example)
  have naive_row: "expiration (renewed_channel ''new-1'' ''secret-1'')
                     = Some (Naive (seconds 122400))"
    by (simp add: renewed_channel_def)
  have h1: "ws_channels just_registered = [] @ renewed_channel ''new-1'' ''secret-1'' # []"
    by (simp add: just_registered_def)
  have h2: "renew_loop ?S ?client example_draws Sqlite (seconds 122400) (seconds 3600) 86400
              [] [] just_registered = (Inr [], just_registered)"
    by simp
  have bug1: "renew_channels ?S ?client example_draws Sqlite (seconds 122400) (seconds 3600)
                86400 just_registered = (Inl naive_subtraction, just_registered)"
    using T [where st = just_registered and pre = "[]"
               and channel = "renewed_channel ''new-1'' ''secret-1''" and post = "[]"
               and ?ids1.0 = "[]" and ?st1.0 = just_registered and t = "seconds 122400"
               and S = ?S and client = ?client and token_hex = example_draws and db = Sqlite
               and now = "seconds 122400" and threshold = "seconds 3600" and ttl = 86400]
      h1 h2 naive_row
    by simp
  have h3: "ws_channels three_naive_channels
              = [] @ naive_channel ''chan-1'' ''res-1'' (seconds 32400)
                  # [naive_channel ''chan-2'' ''res-2'' (seconds 37800),
                     naive_channel ''chan-3'' ''res-3'' (seconds 72000)]"
    by (simp add: three_naive_channels_def)
  have h4: "renew_loop ?S ?client example_draws Sqlite (seconds 36000) (seconds 3600) 86400
              [] [] three_naive_channels = (Inr [], three_naive_channels)"
    by simp
  have h5: "expiration (naive_channel ''chan-1'' ''res-1'' (seconds 32400))
              = Some (Naive (seconds 32400))"
    by (simp add: naive_channel_def)
  have bug2: "renew_channels ?S ?client example_draws Sqlite (seconds 36000) (seconds 3600)
                86400 three_naive_channels = (Inl naive_subtraction, three_naive_channels)"
    using T [where st = three_naive_channels and pre = "[]"
               and channel = "naive_channel ''chan-1'' ''res-1'' (seconds 32400)"
               and post = "[naive_channel ''chan-2'' ''res-2'' (seconds 37800),
                            naive_channel ''chan-3'' ''res-3'' (seconds 72000)]"
               and ?ids1.0 = "[]" and ?st1.0 = three_naive_channels and t = "seconds 32400"
               and S = ?S and client = ?client and token_hex = example_draws and db = Sqlite
               and now = "seconds 36000" and threshold = "seconds 3600" and ttl = 86400]
      h3 h4 h5
    by simp
  have d: "distinct (map channel_id (ws_channels three_channels))"
    by (simp add: three_channels_def example_channel_def)
  have due: "found_due (seconds 36000) (seconds 3600)
               (example_channel ''chan-1'' ''res-1'' (seconds 36000 - seconds 3600))"
    "found_due (seconds 36000) (seconds 3600)
               (example_channel ''chan-2'' ''res-2'' (seconds 36000 + seconds 1800))"
    "\<not> found_due (seconds 36000) (seconds 3600)
               (example_channel ''chan-3'' ''res-3'' (seconds 36000 + seconds 36000))"
    by (simp_all add: found_due_def example_channel_def needs_renewal_def seconds_def)
  from reg naive_row bug1 bug2 d renew_example spec due show ?thesis by (intro conjI)
qed

text \<open>
  C9 as stated fails: when the server refuses to stop the second channel of the example,
  the first channel has been renewed as \<open>new-1\<close>, and the call returns the error, not
  the list holding \<open>new-1\<close>.
\<close>

theorem renew_channels_caller_sees_only_error:
  "fst (renew_channels (test_settings (Some ''refresh'') None)
          (StubClient 122400000 [''chan-2''])
          example_draws Sqlite (seconds 36000) (seconds 3600) 86400 three_channels)
     = Inl (DriveAPIError ''Drive API returned error'' 404 None)
   \<and> fst (renew_channels (test_settings (Some ''refresh'') None)
          (StubClient 122400000 [''chan-2''])
          example_draws Sqlite (seconds 36000) (seconds 3600) 86400 three_channels)
     \<noteq> Inr [''new-1'']
   \<and> ws_channels (snd (renew_channels (test_settings (Some ''refresh'') None)
          (StubClient 122400000 [''chan-2''])
          example_draws Sqlite (seconds 36000) (seconds 3600) 86400 three_channels))
     = [example_channel ''chan-2'' ''res-2'' (seconds 37800),
        example_channel ''chan-3'' ''res-3'' (seconds 72000),
        renewed_channel ''new-1'' ''secret-1'']"
  by (simp add: renew_example_refused after_first_renewal_def)

text \<open>
  C9, as the code has it. \<open>renew_channels\<close> is not atomic: when the channels before
  \<open>channel\<close> have been processed, the comparison of \<open>channel\<close> returns normally and
  finds it due, and the delete or the registration of \<open>channel\<close> fails, the call raises
  the error of that step. The channels renewed before stay renewed
  and \<open>channel\<close> and the channels after it are still in the table when the delete
  failed; when the registration failed \<open>channel\<close> is deleted and not replaced. The
  caller receives the error only: the identifiers of the channels renewed before the
  failure are not returned.
\<close>

theorem renew_channels_failure_partway:
  assumes chans: "ws_channels st = pre @ channel # post"
    and dist: "distinct (map channel_id (ws_channels st))"
    and before: "renew_loop S client token_hex db now threshold ttl pre [] st = (Inr ids, st1)"
    and due: "found_due now threshold channel"
  shows "\<exists>new. map channel_id new = ids
       \<and> length new = length (filter (found_due now threshold) pre)
       \<and> ws_channels st1 =
           filter (\<lambda>r. r \<notin> set (filter (found_due now threshold) pre)) (ws_channels st)
             @ new
       \<and> set (channel # post) \<subseteq> set (ws_channels st1)
       \<and> (\<forall>e st2. delete_watch client (channel_id channel) (resource_id channel) st1
                      = (Inl e, st2)
            \<longrightarrow> renew_channels S client token_hex db now threshold ttl st = (Inl e, st2)
              \<and> ws_channels st2 = ws_channels st1)
       \<and> (\<forall>u st1' e st2.
              delete_watch client (channel_id channel) (resource_id channel) st1 = (Inr u, st1')
              \<and> register_changes_watch S client token_hex db ttl st1' = (Inl e, st2)
            \<longrightarrow> renew_channels S client token_hex db now threshold ttl st = (Inl e, st2)
              \<and> ws_channels st2 = remove1 channel (ws_channels st1))"
proof -
  let ?due = "found_due now threshold"
  have dchans: "distinct (ws_channels st)" using dist by (simp add: distinct_map)
  have sub: "set pre \<subseteq> set (ws_channels st)" using chans by auto
  have dpre: "distinct pre" using dchans chans by simp
  from renew_loop_ok [OF dist sub dpre before] obtain new where
    fin: "ws_channels st1 = filter (\<lambda>r. r \<notin> set (filter ?due pre)) (ws_channels st) @ new"
    and ids: "ids = [] @ map channel_id new"
    and d1: "distinct (map channel_id (ws_channels st1))"
    and spec: "spec_renewals S client token_hex db ttl (filter ?due pre)
                 (ws_draws st) (ws_client st) = Some (new, ws_draws st1, ws_client st1)"
    by blast
  have len: "length new = length (filter ?due pre)"
    using spec_renewals_length [OF spec] by simp
  have cmp: "needs_renewal now threshold channel = Inr True"
    using due by (simp add: found_due_def)
  have rest: "set (channel # post) \<subseteq> set (ws_channels st1)"
    using fin dchans chans by auto
  have whole: "renew_channels S client token_hex db now threshold ttl st
                 = renew_loop S client token_hex db now threshold ttl (channel # post) ids st1"
    using before by (simp add: renew_channels_def list_channels_def chans renew_loop_append)
  have found: "get_channel (channel_id channel) st1 = Some channel"
    using find_distinct [OF d1, of channel] rest by (simp add: get_channel_def)
  have fail_delete:
    "renew_channels S client token_hex db now threshold ttl st = (Inl e, st2)
       \<and> ws_channels st2 = ws_channels st1"
    if "delete_watch client (channel_id channel) (resource_id channel) st1 = (Inl e, st2)"
    for e st2
    using that whole cmp delete_watch_failed [OF that] by simp
  have fail_register:
    "renew_channels S client token_hex db now threshold ttl st = (Inl e, st2)
       \<and> ws_channels st2 = remove1 channel (ws_channels st1)"
    if "delete_watch client (channel_id channel) (resource_id channel) st1 = (Inr u, st1')"
      and "register_changes_watch S client token_hex db ttl st1' = (Inl e, st2)"
    for u st1' e st2
    using that whole cmp delete_watch_ok [OF that(1)] register_failed [OF that(2)] found
    by simp
  have a: "map channel_id new = ids" using ids by simp
  have b: "\<forall>e st2. delete_watch client (channel_id channel) (resource_id channel) st1
                      = (Inl e, st2)
            \<longrightarrow> renew_channels S client token_hex db now threshold ttl st = (Inl e, st2)
              \<and> ws_channels st2 = ws_channels st1"
    using fail_delete by blast
  have c: "\<forall>u st1' e st2.
              delete_watch client (channel_id channel) (resource_id channel) st1 = (Inr u, st1')
              \<and> register_changes_watch S client token_hex db ttl st1' = (Inl e, st2)
            \<longrightarrow> renew_channels S client token_hex db now threshold ttl st = (Inl e, st2)
              \<and> ws_channels st2 = remove1 channel (ws_channels st1)"
    using fail_register by blast
  from a len fin rest b c show ?thesis by (intro exI [of _ new] conjI)
qed

theorem renew_channels_failure_partway_witness:
  "ws_channels three_channels
     = [example_channel ''chan-1'' ''res-1'' (seconds 32400)]
       @ example_channel ''chan-2'' ''res-2'' (seconds 37800)
         # [example_channel ''chan-3'' ''res-3'' (seconds 72000)]
   \<and> distinct (map channel_id (ws_channels three_channels))
   \<and> renew_loop (test_settings (Some ''refresh'') None) (StubClient 122400000 [''chan-2''])
        example_draws Sqlite (seconds 36000) (seconds 3600) 86400
        [example_channel ''chan-1'' ''res-1'' (seconds 32400)] [] three_channels
      = (Inr [''new-1''], after_first_renewal)
   \<and> found_due (seconds 36000) (seconds 3600)
        (example_channel ''chan-2'' ''res-2'' (seconds 37800))
   \<and> delete_watch (StubClient 122400000 [''chan-2'']) ''chan-2'' (Some ''res-2'')
        after_first_renewal
      = (Inl (DriveAPIError ''Drive API returned error'' 404 None),
         after_first_renewal
           \<lparr>ws_client := ws_client after_first_renewal
                           @ [StopChannel ''chan-2'' (Some ''res-2'')]\<rparr>)
   \<and> renew_channels (test_settings (Some ''refresh'') None)
        (StubClient 122400000 [''chan-2''])
        example_draws Sqlite (seconds 36000) (seconds 3600) 86400 three_channels
      = (Inl (DriveAPIError ''Drive API returned error'' 404 None),
         after_first_renewal
           \<lparr>ws_client := ws_client after_first_renewal
                           @ [StopChannel ''chan-2'' (Some ''res-2'')]\<rparr>)"
proof -
  let ?S = "test_settings (Some ''refresh'') None"
  let ?client = "StubClient 122400000 [''chan-2'']"
  let ?c1 = "example_channel ''chan-1'' ''res-1'' (seconds 32400)"
  let ?c2 = "example_channel ''chan-2'' ''res-2'' (seconds 37800)"
  let ?c3 = "example_channel ''chan-3'' ''res-3'' (seconds 72000)"
  let ?e = "DriveAPIError ''Drive API returned error'' 404 None"
  let ?st2 = "after_first_renewal
           \<lparr>ws_client := ws_client after_first_renewal
                           @ [StopChannel ''chan-2'' (Some ''res-2'')]\<rparr>"
  have h1: "ws_channels three_channels = [?c1] @ ?c2 # [?c3]"
    by (simp add: three_channels_def)
  have h2: "distinct (map channel_id (ws_channels three_channels))"
    by (simp add: three_channels_def example_channel_def)
  have h3: "renew_loop ?S ?client example_draws Sqlite (seconds 36000) (seconds 3600) 86400
              [?c1] [] three_channels = (Inr [''new-1''], after_first_renewal)"
    by (simp add: watch_defs)
  have h4: "found_due (seconds 36000) (seconds 3600) ?c2"
    by (simp add: found_due_def example_channel_def needs_renewal_def seconds_def)
  have h5: "delete_watch ?client (channel_id ?c2) (resource_id ?c2) after_first_renewal
              = (Inl ?e, ?st2)"
    by (simp add: watch_defs)
  from renew_channels_failure_partway [OF h1 h2 h3 h4]
  obtain new :: "WatchChannel list" where
    "\<forall>e st2. delete_watch ?client (channel_id ?c2) (resource_id ?c2) after_first_renewal
                 = (Inl e, st2)
       \<longrightarrow> renew_channels ?S ?client example_draws Sqlite (seconds 36000) (seconds 3600) 86400
             three_channels = (Inl e, st2)
         \<and> ws_channels st2 = ws_channels after_first_renewal"
    by blast
  with h5 have "renew_channels ?S ?client example_draws Sqlite (seconds 36000) (seconds 3600) 86400
             three_channels = (Inl ?e, ?st2)"
    by blast
  moreover have "delete_watch ?client ''chan-2'' (Some ''res-2'') after_first_renewal
              = (Inl ?e, ?st2)"
    using h5 by (simp add: example_channel_def)
  ultimately show ?thesis using h1 h2 h3 h4 by simp
qed

end
